theory Spec2Isabelle
  imports Main "HOL-Library.List_Lexorder"
begin

section \<open>Python values shared by the two handlers\<close>

subsection \<open>Strings\<close>

text \<open>
  A Python \<open>str\<close> is a sequence of Unicode code points, so that \<open>len\<close>, \<open>in\<close>,
  \<open>strip\<close> and \<open><\<close> count and compare what Python counts and compares. The
  literals of the source are written with \<open>py\<close>; the few symbols of the two canned
  messages that lie beyond ASCII are given by their code point.
\<close>

type_synonym str = "nat list"

definition py :: "string \<Rightarrow> str" where
  "py cs = map of_char cs"

text \<open>
  \<open>str.lower()\<close>, exact on U+0000..U+00FF (the ASCII capitals and the Latin-1
  capitals U+00C0..U+00DE without the multiplication sign U+00D7). Above U+00FF
  CPython consults its Unicode tables; those code points are left as they are here.
  No theorem below depends on which letters \<open>lower\<close> folds.
\<close>

definition lower_cp :: "nat \<Rightarrow> nat" where
  "lower_cp c =
     (if (65 \<le> c \<and> c \<le> 90) \<or> (192 \<le> c \<and> c \<le> 222 \<and> c \<noteq> 215) then c + 32 else c)"

definition lower :: "str \<Rightarrow> str" where
  "lower s = map lower_cp s"

text \<open>The code points \<open>str.strip()\<close> removes (CPython's \<open>_PyUnicode_IsWhitespace\<close>).\<close>

definition is_space :: "nat \<Rightarrow> bool" where
  "is_space c \<longleftrightarrow>
     (9 \<le> c \<and> c \<le> 13) \<or> (28 \<le> c \<and> c \<le> 32) \<or> c = 133 \<or> c = 160 \<or> c = 5760 \<or>
     (8192 \<le> c \<and> c \<le> 8202) \<or> c = 8232 \<or> c = 8233 \<or> c = 8239 \<or> c = 8287 \<or> c = 12288"

definition strip :: "str \<Rightarrow> str" where
  "strip s = rev (dropWhile is_space (rev (dropWhile is_space s)))"

text \<open>\<open>sub in s\<close> on strings: \<open>sub\<close> occurs in \<open>s\<close> as a contiguous run.\<close>

fun starts_with :: "str \<Rightarrow> str \<Rightarrow> bool" where
  "starts_with [] s = True"
| "starts_with (k # ks) [] = False"
| "starts_with (k # ks) (c # cs) = (k = c \<and> starts_with ks cs)"

fun str_in :: "str \<Rightarrow> str \<Rightarrow> bool" where
  "str_in sub [] = (sub = [])"
| "str_in sub (c # cs) = (starts_with sub (c # cs) \<or> str_in sub cs)"

text \<open>\<open>str(n)\<close> for an integer: its decimal digits.\<close>

fun str_of_nat :: "nat \<Rightarrow> str" where
  "str_of_nat n = (if n < 10 then [48 + n] else str_of_nat (n div 10) @ [48 + n mod 10])"

definition str_of_int :: "int \<Rightarrow> str" where
  "str_of_int i = (if i < 0 then 45 # str_of_nat (nat (- i)) else str_of_nat (nat i))"

text \<open>The lines of a triple-quoted literal, joined by newlines.\<close>

fun text_lines :: "str list \<Rightarrow> str" where
  "text_lines [] = []"
| "text_lines [l] = l"
| "text_lines (l # ls) = l @ 10 # text_lines ls"

subsection \<open>Exceptions\<close>

text \<open>
  An exception is its class name and its \<open>str(e)\<close>. A botocore \<open>ClientError\<close> (or one
  of its generated subclasses) carries in addition the entry
  \<open>e.response['Error']['Code']\<close>, which botocore itself reads with a default and
  which is therefore optional. \<open>BaseException\<close>s that are not \<open>Exception\<close>s
  (interpreter shutdown, keyboard interrupt) are not modelled.
\<close>

datatype exn =
    ClientError str "str option" str
  | Exception str str

definition AttributeError :: "str \<Rightarrow> exn" where
  "AttributeError msg = Exception (py ''AttributeError'') msg"

definition TypeError :: "str \<Rightarrow> exn" where
  "TypeError msg = Exception (py ''TypeError'') msg"

definition KeyError :: "str \<Rightarrow> exn" where
  "KeyError k = Exception (py ''KeyError'') (39 # k @ [39])"

definition UnicodeDecodeError :: "str \<Rightarrow> exn" where
  "UnicodeDecodeError msg = Exception (py ''UnicodeDecodeError'') msg"

fun exn_str :: "exn \<Rightarrow> str" where
  "exn_str (ClientError n c m) = m"
| "exn_str (Exception n m) = m"

fun exn_type_name :: "exn \<Rightarrow> str" where
  "exn_type_name (ClientError n c m) = n"
| "exn_type_name (Exception n m) = n"

section \<open>AgentRouter (LambdaCallToAgent.py)\<close>

subsection \<open>Request classifier\<close>

definition non_technical_keywords :: "str list" where
  "non_technical_keywords = map py
     [''cook'', ''recipe'', ''food'', ''meal'', ''kitchen'', ''bake'', ''ingredient'',
      ''dating'', ''relationship'', ''love'', ''romance'', ''marriage'',
      ''medical'', ''health'', ''doctor'', ''medicine'', ''symptom'', ''disease'',
      ''legal'', ''lawyer'', ''law'', ''court'', ''lawsuit'',
      ''investment'', ''stock'', ''crypto'', ''bitcoin'', ''trading'',
      ''weather'', ''sports'', ''game'', ''movie'', ''music'', ''entertainment'',
      ''travel'', ''vacation'', ''hotel'', ''flight'',
      ''shopping'', ''fashion'', ''clothes'', ''style'']"

definition technical_keywords :: "str list" where
  "technical_keywords = map py
     [''programming'', ''code'', ''software'', ''development'', ''developer'',
      ''python'', ''java'', ''javascript'', ''react'', ''node'', ''aws'', ''cloud'',
      ''ai'', ''artificial intelligence'', ''machine learning'', ''ml'', ''data science'',
      ''algorithm'', ''database'', ''sql'', ''api'', ''framework'', ''library'',
      ''career'', ''job'', ''interview'', ''resume'', ''certification'', ''course'',
      ''skill'', ''learn'', ''study'', ''education'', ''training'', ''bootcamp'',
      ''technology'', ''tech'', ''computer'', ''engineering'', ''devops'',
      ''cybersecurity'', ''security'', ''network'', ''system'', ''architecture'',
      ''agile'', ''scrum'', ''project management'', ''leadership'', ''management'']"

text \<open>
  The two \<open>for\<close> loops return at the first keyword found in the lower-cased prompt:
  \<open>False\<close> from the first loop, \<open>True\<close> from the second, \<open>True\<close> when both run out.
\<close>

definition is_technical_query :: "str \<Rightarrow> bool" where
  "is_technical_query prompt =
     (let prompt_lower = lower prompt in
      if list_ex (\<lambda>keyword. str_in keyword prompt_lower) non_technical_keywords then False
      else if list_ex (\<lambda>keyword. str_in keyword prompt_lower) technical_keywords then True
      else True)"

definition generate_off_topic_response :: "str \<Rightarrow> str" where
  "generate_off_topic_response prompt =
     (let prompt_lower = lower prompt;
          has = (\<lambda>w. str_in (py w) prompt_lower);
          topic =
            (if has ''cook'' \<or> has ''recipe'' \<or> has ''food'' then py ''cooking''
             else if has ''dating'' \<or> has ''relationship'' then py ''relationships''
             else if has ''health'' \<or> has ''medical'' then py ''health advice''
             else if has ''legal'' \<or> has ''law'' then py ''legal advice''
             else if has ''investment'' \<or> has ''stock'' then py ''investment advice''
             else if has ''weather'' then py ''weather''
             else if has ''sports'' \<or> has ''game'' then py ''sports or games''
             else py ''that topic'')
      in text_lines
        [py ''I'm an AI Upskill Coach focused on technical career development. I can't help with ''
           @ topic @ py '', but I'd be happy to assist you with:'',
         [],
         128640 # py '' **AI & Machine Learning Careers**'',
         8226 # py '' Career paths in AI/ML, data science, and analytics'',
         8226 # py '' Required skills and certifications'',
         8226 # py '' Industry trends and opportunities'',
         [],
         128187 # py '' **Programming & Development**'',
         8226 # py '' Programming languages (Python, JavaScript, Java, etc.)'',
         8226 # py '' Frameworks and tools'',
         8226 # py '' Best practices and coding skills'',
         [],
         128218 # py '' **Learning & Certifications**'',
         8226 # py '' Technical courses and bootcamps'',
         8226 # py '' AWS, Google Cloud, Microsoft certifications'',
         8226 # py '' Online learning platforms and resources'',
         [],
         128221 # py '' **Professional Development**'',
         8226 # py '' Resume optimization for tech roles'',
         8226 # py '' Technical interview preparation'',
         8226 # py '' Career progression strategies'',
         [],
         py ''What technical topic would you like to explore today?''])"

definition get_fallback_response :: "str" where
  "get_fallback_response = text_lines
     [py ''I apologize, but I'm experiencing technical difficulties right now. However, I'm here to help with your technical career development!'',
      [],
      py ''Here are some ways I can assist you:'',
      [],
      128640 # py '' **Career Guidance**'',
      8226 # py '' AI/ML career paths and opportunities'',
      8226 # py '' Software engineering roles and progression'',
      8226 # py '' Data science and analytics careers'',
      [],
      128187 # py '' **Technical Skills**'',
      8226 # py '' Programming languages to learn'',
      8226 # py '' Frameworks and tools recommendations'',
      8226 # py '' Best practices and coding standards'',
      [],
      128218 # py '' **Learning Resources**'',
      8226 # py '' Online courses and certifications'',
      8226 # py '' Bootcamps and training programs'',
      8226 # py '' Books and documentation'',
      [],
      128221 # py '' **Professional Development**'',
      8226 # py '' Resume and portfolio optimization'',
      8226 # py '' Interview preparation strategies'',
      8226 # py '' Networking and career growth tips'',
      [],
      py ''Please try asking your question again, or let me know what specific area you'd like to focus on!'']"

subsection \<open>JSON values: the event and the request body\<close>

text \<open>
  What the Lambda runtime and \<open>json.loads\<close> hand to the code. An object keeps its
  entries in order, each key once. A float is \<open>m * 2 ^ e\<close>.
\<close>

datatype json =
    JNull
  | JBool bool
  | JInt int
  | JFloat int int
  | JStr str
  | JArr "json list"
  | JObj "(str \<times> json) list"

text \<open>Truth value of an object in \<open>if x\<close> and \<open>if not x\<close>.\<close>

fun truthy :: "json \<Rightarrow> bool" where
  "truthy JNull = False"
| "truthy (JBool b) = b"
| "truthy (JInt i) = (i \<noteq> 0)"
| "truthy (JFloat m e) = (m \<noteq> 0)"
| "truthy (JStr s) = (s \<noteq> [])"
| "truthy (JArr xs) = (xs \<noteq> [])"
| "truthy (JObj kvs) = (kvs \<noteq> [])"

text \<open>
  \<open>k in x\<close> for a string \<open>k\<close>: a key of a dict, an element of a list, a substring
  of a string; any other operand raises. The messages of the exceptions raised by the
  interpreter are only ever logged by this handler and are left empty.
\<close>

fun json_in :: "str \<Rightarrow> json \<Rightarrow> exn + bool" where
  "json_in k (JObj kvs) = Inr (map_of kvs k \<noteq> None)"
| "json_in k (JArr xs) = Inr (List.member xs (JStr k))"
| "json_in k (JStr s) = Inr (str_in k s)"
| "json_in k x = Inl (TypeError [])"

text \<open>\<open>x[k]\<close> for a string \<open>k\<close>.\<close>

fun subscript :: "json \<Rightarrow> str \<Rightarrow> exn + json" where
  "subscript (JObj kvs) k = (case map_of kvs k of Some v \<Rightarrow> Inr v | None \<Rightarrow> Inl (KeyError k))"
| "subscript x k = Inl (TypeError [])"

text \<open>\<open>x.get(k, default)\<close>: only a dict has the method.\<close>

fun json_get :: "json \<Rightarrow> str \<Rightarrow> json \<Rightarrow> exn + json" where
  "json_get (JObj kvs) k d = (case map_of kvs k of Some v \<Rightarrow> Inr v | None \<Rightarrow> Inr d)"
| "json_get x k d = Inl (AttributeError [])"

text \<open>\<open>x.strip()\<close>: only a string has the method.\<close>

fun str_strip :: "json \<Rightarrow> exn + str" where
  "str_strip (JStr s) = Inr (strip s)"
| "str_strip x = Inl (AttributeError [])"

subsection \<open>The environment of the handler\<close>

text \<open>One call of \<open>bedrock_agent_runtime.invoke_agent\<close>, by its keyword arguments.\<close>

record invocation =
  agentId :: str
  agentAliasId :: str
  sessionId :: json
  inputText :: str
  enableTrace :: bool
  endSession :: bool

text \<open>
  The events of \<open>response['completion']\<close>. A chunk may lack \<open>'bytes'\<close>; bytes either
  decode as UTF-8 to a text or do not. The stream is the finite sequence of events the
  iterator yields, ended by exhaustion or by an exception raised from the iterator.
\<close>

datatype bytes = Utf8 str | NotUtf8

datatype stream_event = Chunk "bytes option" | Trace | ReturnControl | OtherEvent

datatype stream = EndOfStream | StreamRaises exn | Yield stream_event stream

text \<open>
  The module constants read from the environment (their assignments are not part of
  the source file), and the library calls whose result the code depends on:
  \<open>json.loads\<close> (\<open>None\<close> for a \<open>JSONDecodeError\<close>), \<open>json.dumps\<close>,
  \<open>int(time.time())\<close>, \<open>datetime.utcnow().isoformat()\<close> and \<open>invoke_agent\<close>.
\<close>

record agent_env =
  BEDROCK_AGENT_NAME :: str
  BEDROCK_AGENT_ID :: str
  BEDROCK_AGENT_ALIAS_ID :: str
  BEDROCK_COURSEAGENT_ID :: str
  BEDROCK_COURSEAGENT_ALIAS_ID :: str
  MAX_PROMPT_LENGTH :: int
  json_loads :: "str \<Rightarrow> json option"
  json_dumps :: "json \<Rightarrow> str"
  time_time :: int
  utcnow_isoformat :: str
  invoke_agent :: "invocation \<Rightarrow> exn + stream"

subsection \<open>Validation and parsing\<close>

definition validate_request :: "agent_env \<Rightarrow> json \<Rightarrow> exn + (bool \<times> json)" where
  "validate_request env request =
     (if \<not> truthy request then Inr (False, JStr (py ''Request body is required''))
      else
        (case json_in (py ''prompt'') request of
           Inl e \<Rightarrow> Inl e
         | Inr found \<Rightarrow>
             if \<not> found then Inr (False, JStr (py ''Prompt is required''))
             else
               (case subscript request (py ''prompt'') of
                  Inl e \<Rightarrow> Inl e
                | Inr p \<Rightarrow>
                   (case str_strip p of
                      Inl e \<Rightarrow> Inl e
                    | Inr prompt \<Rightarrow>
                        if prompt = [] then Inr (False, JStr (py ''Prompt cannot be empty''))
                        else if int (length prompt) > MAX_PROMPT_LENGTH env then
                          Inr (False, JStr (py ''Prompt too long (max ''
                                 @ str_of_int (MAX_PROMPT_LENGTH env) @ py '' characters)''))
                        else if list_ex (\<lambda>pattern. str_in pattern (lower prompt))
                                  (map py [''<script'', ''javascript:'', ''data:'', ''vbscript:''])
                          then Inr (False, JStr (py ''Invalid content detected in prompt''))
                        else Inr (True, JNull)))))"

text \<open>
  \<open>json.loads(x)\<close> inside \<open>parse_request_body\<close>: a value that is not a string raises
  \<open>TypeError\<close>, undecodable text raises \<open>JSONDecodeError\<close>; both are caught there
  and give \<open>None\<close>, as does JSON \<open>null\<close>.
\<close>

fun loads_or_none :: "agent_env \<Rightarrow> json \<Rightarrow> json" where
  "loads_or_none env (JStr s) = (case json_loads env s of Some v \<Rightarrow> v | None \<Rightarrow> JNull)"
| "loads_or_none env x = JNull"

text \<open>
  The argument is the dict \<open>event\<close>. In the second branch \<open>'body'\<close> is not a key of
  \<open>event\<close>, so \<open>event.get('body')\<close> is \<open>None\<close> and the branch returns \<open>None\<close>; the
  \<open>in\<close> on \<open>event['requestContext']\<close> may raise, which is caught and gives \<open>None\<close> too.
\<close>

definition parse_request_body :: "agent_env \<Rightarrow> (str \<times> json) list \<Rightarrow> json" where
  "parse_request_body env event =
     (case map_of event (py ''body'') of
        Some b \<Rightarrow> if truthy b then loads_or_none env b else JNull
      | None \<Rightarrow>
         (case map_of event (py ''requestContext'') of
            Some rc \<Rightarrow>
              (case json_in (py ''http'') rc of
                 Inl e \<Rightarrow> JNull
               | Inr True \<Rightarrow> JNull
               | Inr False \<Rightarrow> if map_of event (py ''prompt'') \<noteq> None then JObj event else JNull)
          | None \<Rightarrow> if map_of event (py ''prompt'') \<noteq> None then JObj event else JNull))"

subsection \<open>Agent selection and stream aggregation\<close>

definition mycourse_keywords :: "str list" where
  "mycourse_keywords = map py
     [''my course'', ''my all course'', ''my completed course'',
      ''my in progress course'', ''my ongoing course'',
      ''all my course'', ''my course list'']"

text \<open>
  The \<open>for event in event_stream\<close> loop with its \<open>try\<close>: the text accumulated in
  \<open>ai_response\<close> when the loop ends, and the exception that ended it, if any.
\<close>

fun consume_stream :: "str \<Rightarrow> stream \<Rightarrow> str \<times> exn option" where
  "consume_stream ai_response EndOfStream = (ai_response, None)"
| "consume_stream ai_response (StreamRaises e) = (ai_response, Some e)"
| "consume_stream ai_response (Yield (Chunk (Some (Utf8 chunk_text))) rest) =
     consume_stream (ai_response @ chunk_text) rest"
| "consume_stream ai_response (Yield (Chunk (Some NotUtf8)) rest) =
     (ai_response, Some (UnicodeDecodeError []))"
| "consume_stream ai_response (Yield ev rest) = consume_stream ai_response rest"

text \<open>
  The handlers of the outer \<open>try\<close>. Reading the error code of a \<open>ClientError\<close> that
  has none raises \<open>KeyError\<close> inside the handler, which leaves the function.
\<close>

fun invoke_failed :: "exn \<Rightarrow> exn + str" where
  "invoke_failed (ClientError n None m) = Inl (KeyError (py ''Code''))"
| "invoke_failed (ClientError n (Some error_code) m) = Inr get_fallback_response"
| "invoke_failed (Exception n m) = Inr get_fallback_response"

text \<open>
  Returns the calls made to \<open>invoke_agent\<close> together with the function's result.
\<close>

definition generate_ai_response_with_agent ::
  "agent_env \<Rightarrow> str \<Rightarrow> json \<Rightarrow> invocation list \<times> (exn + str)" where
  "generate_ai_response_with_agent env prompt session_id =
     (let myprompt = lower prompt;
          call =
            (if list_ex (\<lambda>keyword. str_in keyword myprompt) mycourse_keywords then
               \<lparr>agentId = BEDROCK_COURSEAGENT_ID env,
                agentAliasId = BEDROCK_COURSEAGENT_ALIAS_ID env,
                sessionId = session_id, inputText = prompt,
                enableTrace = False, endSession = False\<rparr>
             else
               \<lparr>agentId = BEDROCK_AGENT_ID env,
                agentAliasId = BEDROCK_AGENT_ALIAS_ID env,
                sessionId = session_id, inputText = prompt,
                enableTrace = False, endSession = False\<rparr>)
      in ([call],
          case invoke_agent env call of
            Inl e \<Rightarrow> invoke_failed e
          | Inr event_stream \<Rightarrow>
             (case consume_stream [] event_stream of
                (ai_response, stream_error) \<Rightarrow>
                  if stream_error \<noteq> None \<and> strip ai_response = [] then Inr get_fallback_response
                  else if strip ai_response = [] then Inr get_fallback_response
                  else Inr (strip ai_response))))"

subsection \<open>Responses and the handler\<close>

record response =
  statusCode :: int
  headers :: "(str \<times> str) list"
  body :: str

definition agent_block :: "agent_env \<Rightarrow> json" where
  "agent_block env = JObj
     [(py ''name'', JStr (BEDROCK_AGENT_NAME env)),
      (py ''id'', JStr (BEDROCK_AGENT_ID env)),
      (py ''aliasId'', JStr (BEDROCK_AGENT_ALIAS_ID env))]"

definition success_body :: "agent_env \<Rightarrow> str \<Rightarrow> json \<Rightarrow> json" where
  "success_body env message session_id = JObj
     [(py ''response'', JStr message),
      (py ''sessionId'', session_id),
      (py ''timestamp'', JStr (utcnow_isoformat env)),
      (py ''status'', JStr (py ''success'')),
      (py ''agent'', agent_block env)]"

definition create_success_response ::
  "agent_env \<Rightarrow> str \<Rightarrow> json \<Rightarrow> (str \<times> str) list \<Rightarrow> response" where
  "create_success_response env message session_id hdrs =
     \<lparr>statusCode = 200, headers = hdrs,
      body = json_dumps env (success_body env message session_id)\<rparr>"

definition error_body :: "agent_env \<Rightarrow> json \<Rightarrow> json" where
  "error_body env error_message = JObj
     [(py ''error'', error_message),
      (py ''timestamp'', JStr (utcnow_isoformat env)),
      (py ''status'', JStr (py ''error'')),
      (py ''agent'', agent_block env)]"

definition create_error_response ::
  "agent_env \<Rightarrow> json \<Rightarrow> (str \<times> str) list \<Rightarrow> int \<Rightarrow> response" where
  "create_error_response env error_message hdrs status_code =
     \<lparr>statusCode = status_code, headers = hdrs,
      body = json_dumps env (error_body env error_message)\<rparr>"

definition cors_headers :: "(str \<times> str) list" where
  "cors_headers =
     [(py ''Content-Type'', py ''application/json''),
      (py ''Access-Control-Allow-Methods'', py ''POST, OPTIONS''),
      (py ''Access-Control-Allow-Headers'', py ''Content-Type, Authorization'')]"

text \<open>
  The body of the \<open>try\<close> in \<open>lambda_handler\<close>: the calls made to the agent, and
  either the response returned or the exception that leaves the block. An event that
  is not a dict has no \<open>get\<close>. \<open>headers\<close> is assigned before the first statement
  that can raise.
\<close>

definition lambda_handler_try ::
  "agent_env \<Rightarrow> json \<Rightarrow> invocation list \<times> (exn + response)" where
  "lambda_handler_try env event =
     (case event of
        JObj ev \<Rightarrow>
          if map_of ev (py ''httpMethod'') = Some (JStr (py ''OPTIONS'')) then
            ([], Inr \<lparr>statusCode = 200, headers = cors_headers,
                      body = json_dumps env
                        (JObj [(py ''message'', JStr (py ''CORS preflight successful''))])\<rparr>)
          else
            let request = parse_request_body env ev in
            if \<not> truthy request then
              ([], Inr (create_error_response env (JStr (py ''Invalid request format''))
                          cors_headers 400))
            else
              (case validate_request env request of
                 Inl e \<Rightarrow> ([], Inl e)
               | Inr (is_valid, error_message) \<Rightarrow>
                   if \<not> is_valid then
                     ([], Inr (create_error_response env error_message cors_headers 400))
                   else
                     (case subscript request (py ''prompt'') of
                        Inl e \<Rightarrow> ([], Inl e)
                      | Inr p \<Rightarrow>
                         (case str_strip p of
                            Inl e \<Rightarrow> ([], Inl e)
                          | Inr prompt \<Rightarrow>
                             (case json_get request (py ''sessionId'')
                                     (JStr (py ''session_'' @ str_of_int (time_time env))) of
                                Inl e \<Rightarrow> ([], Inl e)
                              | Inr session_id \<Rightarrow>
                                  if \<not> is_technical_query prompt then
                                    ([], Inr (create_success_response env
                                                (generate_off_topic_response prompt)
                                                session_id cors_headers))
                                  else
                                    (case generate_ai_response_with_agent env prompt session_id of
                                       (calls, Inl e) \<Rightarrow> (calls, Inl e)
                                     | (calls, Inr ai_response) \<Rightarrow>
                                         (calls, Inr (create_success_response env ai_response
                                                        session_id cors_headers)))))))
      | _ \<Rightarrow> ([], Inl (AttributeError [])))"

text \<open>
  \<open>lambda_handler\<close>: the \<open>try\<close> with its \<open>except Exception\<close>, which answers with the
  status-500 envelope.
\<close>

definition lambda_handler :: "agent_env \<Rightarrow> json \<Rightarrow> invocation list \<times> response" where
  "lambda_handler env event =
     (case lambda_handler_try env event of
        (calls, Inr r) \<Rightarrow> (calls, r)
      | (calls, Inl e) \<Rightarrow>
          (calls, create_error_response env
                    (JStr (py ''An unexpected error occurred. Please try again later.''))
                    cors_headers 500))"

subsection \<open>Notions used in the statements about the AgentRouter\<close>

text \<open>
  The texts of the text-bearing chunks a stream delivers before it ends, in emission
  order, and whether its iteration ends with an exception (raised by the iterator or
  by decoding a chunk).
\<close>

fun chunk_texts :: "stream \<Rightarrow> str list" where
  "chunk_texts EndOfStream = []"
| "chunk_texts (StreamRaises e) = []"
| "chunk_texts (Yield (Chunk (Some (Utf8 chunk_text))) rest) = chunk_text # chunk_texts rest"
| "chunk_texts (Yield (Chunk (Some NotUtf8)) rest) = []"
| "chunk_texts (Yield ev rest) = chunk_texts rest"

fun faults :: "stream \<Rightarrow> bool" where
  "faults EndOfStream = False"
| "faults (StreamRaises e) = True"
| "faults (Yield (Chunk (Some NotUtf8)) rest) = True"
| "faults (Yield ev rest) = faults rest"

text \<open>
  A compact rendering of a JSON value, used in place of \<open>json.dumps\<close> in the
  examples.
\<close>

primrec render :: "json \<Rightarrow> str" where
  "render JNull = py ''null''"
| "render (JBool b) = (if b then py ''true'' else py ''false'')"
| "render (JInt i) = str_of_int i"
| "render (JFloat m e) = str_of_int m @ py ''*2**'' @ str_of_int e"
| "render (JStr s) = 34 # s @ [34]"
| "render (JArr xs) = 91 # concat (map (\<lambda>r. r @ [44]) (map render xs)) @ [93]"
| "render (JObj kvs) =
     123 # concat (map (\<lambda>(k, r). 34 # k @ 34 # 58 # r @ [44]) (map (map_prod id render) kvs)) @ [125]"

text \<open>
  An environment for the examples: two distinct agent identities, no request body
  that parses, and an agent runtime that gives the same answer to every call.
\<close>

definition example_env :: "exn + stream \<Rightarrow> agent_env" where
  "example_env answer =
     \<lparr>BEDROCK_AGENT_NAME = py ''myagent-invoke-llm'',
      BEDROCK_AGENT_ID = py ''GENERALAGENT'',
      BEDROCK_AGENT_ALIAS_ID = py ''GENERALALIAS'',
      BEDROCK_COURSEAGENT_ID = py ''COURSEAGENT'',
      BEDROCK_COURSEAGENT_ALIAS_ID = py ''COURSEALIAS'',
      MAX_PROMPT_LENGTH = 4000,
      json_loads = (\<lambda>s. None),
      json_dumps = render,
      time_time = 1761955200,
      utcnow_isoformat = py ''2025-11-01T00:00:00'',
      invoke_agent = (\<lambda>call. answer)\<rparr>"

section \<open>CourseQueryService (LambdaAction.py)\<close>

subsection \<open>Values of the record store and of the results\<close>

text \<open>
  A \<open>Decimal\<close> is \<open>m * 10 ^ e\<close>. \<open>float d\<close> stands for the Python float that
  \<open>float(d)\<close> yields; its rounding is not modelled, only that it is a float. The
  values are those boto3 returns for an item (strings, decimals, booleans, \<open>None\<close>,
  binaries, lists, dicts and sets) and those the code builds (integers, floats).
\<close>

datatype decimal = Decimal int int

datatype pyfloat = float decimal

datatype val =
    VNone
  | VBool bool
  | VInt int
  | VFloat pyfloat
  | VDecimal decimal
  | VStr str
  | VBinary "nat list"
  | VList "val list"
  | VDict "(str \<times> val) list"
  | VSet "val list"

text \<open>
  Truth value. A stored number is within DynamoDB's range, where \<open>float(d)\<close> is zero
  only for a zero \<open>d\<close>. boto3's \<open>Binary\<close> defines neither \<open>__bool__\<close> nor \<open>__len__\<close>.
\<close>

fun val_truthy :: "val \<Rightarrow> bool" where
  "val_truthy VNone = False"
| "val_truthy (VBool b) = b"
| "val_truthy (VInt i) = (i \<noteq> 0)"
| "val_truthy (VFloat (float (Decimal m e))) = (m \<noteq> 0)"
| "val_truthy (VDecimal (Decimal m e)) = (m \<noteq> 0)"
| "val_truthy (VStr s) = (s \<noteq> [])"
| "val_truthy (VBinary b) = True"
| "val_truthy (VList xs) = (xs \<noteq> [])"
| "val_truthy (VDict kvs) = (kvs \<noteq> [])"
| "val_truthy (VSet xs) = (xs \<noteq> [])"

text \<open>The class name an \<open>AttributeError\<close> message quotes.\<close>

fun type_name :: "val \<Rightarrow> str" where
  "type_name VNone = py ''NoneType''"
| "type_name (VBool b) = py ''bool''"
| "type_name (VInt i) = py ''int''"
| "type_name (VFloat f) = py ''float''"
| "type_name (VDecimal d) = py ''decimal.Decimal''"
| "type_name (VStr s) = py ''str''"
| "type_name (VBinary b) = py ''Binary''"
| "type_name (VList xs) = py ''list''"
| "type_name (VDict kvs) = py ''dict''"
| "type_name (VSet xs) = py ''set''"

definition no_attribute_get :: "val \<Rightarrow> exn" where
  "no_attribute_get x =
     AttributeError (39 # type_name x @ 39 # py '' object has no attribute '' @ 39 # py ''get'' @ [39])"

text \<open>\<open>d.get(k, default)\<close> on a dict.\<close>

definition dict_get :: "(str \<times> val) list \<Rightarrow> str \<Rightarrow> val \<Rightarrow> val" where
  "dict_get d k dflt = (case map_of d k of Some v \<Rightarrow> v | None \<Rightarrow> dflt)"

primrec convert_decimals :: "val \<Rightarrow> val" where
  "convert_decimals VNone = VNone"
| "convert_decimals (VBool b) = VBool b"
| "convert_decimals (VInt i) = VInt i"
| "convert_decimals (VFloat f) = VFloat f"
| "convert_decimals (VDecimal obj) = VFloat (float obj)"
| "convert_decimals (VStr s) = VStr s"
| "convert_decimals (VBinary b) = VBinary b"
| "convert_decimals (VList xs) = VList (map convert_decimals xs)"
| "convert_decimals (VDict kvs) = VDict (map (map_prod id convert_decimals) kvs)"
| "convert_decimals (VSet xs) = VSet xs"

subsection \<open>The table and the environment\<close>

text \<open>
  The responses of a paginated scan, in order: a page with a \<open>LastEvaluatedKey\<close> is
  followed by the response to the next call, a page without one is the last; a call
  may raise. A DynamoDB scan of a table comes to an end, so the sequence is finite.
\<close>

datatype pages = LastPage "val list" | Page "val list" pages | ScanRaises exn

text \<open>
  The table handle: reading \<open>table_status\<close>, scanning (with
  \<open>Attr('State').eq(state)\<close> as filter, or none), and \<open>get_item\<close> by \<open>CourseID\<close>,
  whose response holds an \<open>'Item'\<close> or none.
\<close>

record table =
  table_status :: "exn + str"
  scan :: "str option \<Rightarrow> pages"
  get_item :: "str \<Rightarrow> exn + val option"

text \<open>
  \<open>dynamodb_table\<close> is the outcome of \<open>boto3.resource('dynamodb').Table('MyCourses')\<close>,
  \<open>dumps\<close> is \<open>json.dumps(\<dots>, default=str)\<close> (on the strings and booleans of
  \<open>create_error_response\<close> the default is never called), and \<open>lt_other\<close> is Python's \<open><\<close>
  on two sort keys that are not both strings (numbers compare by value, a string
  against a number raises \<open>TypeError\<close>, and so on), which is not modelled.
\<close>

record course_env =
  dynamodb_table :: "exn + table"
  dumps :: "val \<Rightarrow> str"
  lt_other :: "val \<Rightarrow> val \<Rightarrow> exn + bool"

text \<open>The event of the agent framework; a parameter is a dict of strings.\<close>

record action_event =
  actionGroup :: "str option"
  apiPath :: "str option"
  httpMethod :: "str option"
  parameters :: "(str \<times> str) list list option"

subsection \<open>Scanning, normalising and sorting\<close>

text \<open>
  \<open>courses = response.get('Items', [])\<close> followed by the \<open>while 'LastEvaluatedKey' in
  response\<close> loop, which extends \<open>courses\<close> page by page.
\<close>

fun scan_all :: "val list \<Rightarrow> pages \<Rightarrow> exn + val list" where
  "scan_all courses (LastPage items) = Inr (courses @ items)"
| "scan_all courses (Page items rest) = scan_all (courses @ items) rest"
| "scan_all courses (ScanRaises e) = Inl e"

text \<open>The dict built from one course; \<open>course.get\<close> exists on a dict only.\<close>

fun normalize_course :: "val \<Rightarrow> exn + (str \<times> val) list" where
  "normalize_course (VDict course) = Inr
     [(py ''CourseID'', dict_get course (py ''CourseID'') (VStr [])),
      (py ''CourseName'', dict_get course (py ''Course Name'') (VStr [])),
      (py ''Duration'', dict_get course (py ''Duration (hours)'') (VStr [])),
      (py ''State'', dict_get course (py ''State'') (VStr []))]"
| "normalize_course x = Inl (no_attribute_get x)"

text \<open>The \<open>for course in courses\<close> loop that fills \<open>normalized_courses\<close>.\<close>

fun normalize_courses :: "val list \<Rightarrow> exn + (str \<times> val) list list" where
  "normalize_courses [] = Inr []"
| "normalize_courses (course # courses) =
     (case normalize_course course of
        Inl e \<Rightarrow> Inl e
      | Inr normalized_course \<Rightarrow>
         (case normalize_courses courses of
            Inl e \<Rightarrow> Inl e
          | Inr normalized_courses \<Rightarrow> Inr (normalized_course # normalized_courses)))"

text \<open>The sort key \<open>lambda x: x.get('CourseID', '')\<close>.\<close>

definition sort_key_CourseID :: "(str \<times> val) list \<Rightarrow> val" where
  "sort_key_CourseID x = dict_get x (py ''CourseID'') (VStr [])"

text \<open>\<open>a < b\<close> on sort keys: code-point order on two strings.\<close>

fun py_lt :: "course_env \<Rightarrow> val \<Rightarrow> val \<Rightarrow> exn + bool" where
  "py_lt env (VStr a) (VStr b) = Inr (a < b)"
| "py_lt env a b = lt_other env a b"

text \<open>
  \<open>list.sort(key=\<dots>)\<close> is a stable sort that compares keys with \<open><\<close> only and
  lets an exception of a comparison through. It is modelled by stable insertion:
  every stable sort yields the same list when \<open><\<close> orders the keys, and a list of
  one element is never compared.
\<close>

fun insert_sorted ::
  "course_env \<Rightarrow> (str \<times> val) list \<Rightarrow> (str \<times> val) list list \<Rightarrow> exn + (str \<times> val) list list" where
  "insert_sorted env x [] = Inr [x]"
| "insert_sorted env x (y # ys) =
     (case py_lt env (sort_key_CourseID y) (sort_key_CourseID x) of
        Inl e \<Rightarrow> Inl e
      | Inr True \<Rightarrow> (case insert_sorted env x ys of Inl e \<Rightarrow> Inl e | Inr r \<Rightarrow> Inr (y # r))
      | Inr False \<Rightarrow> Inr (x # y # ys))"

fun sort_by_CourseID ::
  "course_env \<Rightarrow> (str \<times> val) list list \<Rightarrow> exn + (str \<times> val) list list" where
  "sort_by_CourseID env [] = Inr []"
| "sort_by_CourseID env (x # xs) =
     (case sort_by_CourseID env xs of Inl e \<Rightarrow> Inl e | Inr s \<Rightarrow> insert_sorted env x s)"

text \<open>
  Conversion, normalisation and sorting as both list queries do them. \<open>courses\<close> is
  a list, so \<open>convert_decimals(courses)\<close> is the list of the converted items.
\<close>

definition normalize_and_sort :: "course_env \<Rightarrow> val list \<Rightarrow> exn + (str \<times> val) list list" where
  "normalize_and_sort env courses =
     (case normalize_courses (map convert_decimals courses) of
        Inl e \<Rightarrow> Inl e
      | Inr normalized_courses \<Rightarrow> sort_by_CourseID env normalized_courses)"

subsection \<open>The queries\<close>

definition get_all_courses :: "course_env \<Rightarrow> table \<Rightarrow> (str \<times> val) list" where
  "get_all_courses env tbl =
     (case table_status tbl of
        Inl table_error \<Rightarrow>
          [(py ''success'', VBool False),
           (py ''error'', VStr (py ''Cannot access MyCourses table: '' @ exn_str table_error)),
           (py ''suggestion'',
              VStr (py ''Check if table exists and IAM permissions are correct''))]
      | Inr table_info \<Rightarrow>
         (case scan_all [] (scan tbl None) of
            Inl e \<Rightarrow>
              [(py ''success'', VBool False),
               (py ''error'', VStr (py ''Failed to retrieve courses: '' @ exn_str e)),
               (py ''function'', VStr (py ''get_all_courses''))]
          | Inr courses \<Rightarrow>
             (case normalize_and_sort env courses of
                Inl e \<Rightarrow>
                  [(py ''success'', VBool False),
                   (py ''error'', VStr (py ''Failed to retrieve courses: '' @ exn_str e)),
                   (py ''function'', VStr (py ''get_all_courses''))]
              | Inr normalized_courses \<Rightarrow>
                  [(py ''success'', VBool True),
                   (py ''data'', VDict
                      [(py ''courses'', VList (map VDict normalized_courses)),
                       (py ''totalCourses'', VInt (int (length normalized_courses))),
                       (py ''message'', VStr (py ''Retrieved ''
                          @ str_of_nat (length normalized_courses)
                          @ py '' courses successfully from MyCourses table''))])])))"

definition get_courses_by_state ::
  "course_env \<Rightarrow> table \<Rightarrow> (str \<rightharpoonup> str) \<Rightarrow> (str \<times> val) list" where
  "get_courses_by_state env tbl params =
     (case params (py ''state'') of
        None \<Rightarrow>
          [(py ''success'', VBool False),
           (py ''error'', VStr (py ''state parameter is required'')),
           (py ''validStates'',
              VList (map (VStr \<circ> py) [''Completed'', ''In Progress'', ''Not Started'']))]
      | Some state \<Rightarrow>
          if state = [] then
            [(py ''success'', VBool False),
             (py ''error'', VStr (py ''state parameter is required'')),
             (py ''validStates'',
                VList (map (VStr \<circ> py) [''Completed'', ''In Progress'', ''Not Started'']))]
          else
            (case scan_all [] (scan tbl (Some state)) of
               Inl e \<Rightarrow>
                 [(py ''success'', VBool False),
                  (py ''error'', VStr (py ''Failed to filter courses by state: '' @ exn_str e)),
                  (py ''function'', VStr (py ''get_courses_by_state''))]
             | Inr courses \<Rightarrow>
                (case normalize_and_sort env courses of
                   Inl e \<Rightarrow>
                     [(py ''success'', VBool False),
                      (py ''error'',
                         VStr (py ''Failed to filter courses by state: '' @ exn_str e)),
                      (py ''function'', VStr (py ''get_courses_by_state''))]
                 | Inr normalized_courses \<Rightarrow>
                     [(py ''success'', VBool True),
                      (py ''data'', VDict
                         [(py ''courses'', VList (map VDict normalized_courses)),
                          (py ''totalCourses'', VInt (int (length normalized_courses))),
                          (py ''state'', VStr state),
                          (py ''message'', VStr (py ''Found ''
                             @ str_of_nat (length normalized_courses)
                             @ py '' courses with state: '' @ state))])])))"

definition get_course_details ::
  "course_env \<Rightarrow> table \<Rightarrow> (str \<rightharpoonup> str) \<Rightarrow> (str \<times> val) list" where
  "get_course_details env tbl params =
     (case params (py ''courseId'') of
        None \<Rightarrow>
          [(py ''success'', VBool False),
           (py ''error'', VStr (py ''courseId parameter is required''))]
      | Some course_id \<Rightarrow>
          if course_id = [] then
            [(py ''success'', VBool False),
             (py ''error'', VStr (py ''courseId parameter is required''))]
          else
            (case get_item tbl course_id of
               Inl e \<Rightarrow>
                 [(py ''success'', VBool False),
                  (py ''error'', VStr (py ''Failed to get course details: '' @ exn_str e)),
                  (py ''function'', VStr (py ''get_course_details''))]
             | Inr None \<Rightarrow>
                 [(py ''success'', VBool True),
                  (py ''data'', VDict
                     [(py ''courseId'', VStr course_id),
                      (py ''found'', VBool False),
                      (py ''message'',
                         VStr (py ''Course with ID '' @ course_id @ py '' not found''))])]
             | Inr (Some item) \<Rightarrow>
                (case normalize_course (convert_decimals item) of
                   Inl e \<Rightarrow>
                     [(py ''success'', VBool False),
                      (py ''error'', VStr (py ''Failed to get course details: '' @ exn_str e)),
                      (py ''function'', VStr (py ''get_course_details''))]
                 | Inr normalized_course \<Rightarrow>
                     [(py ''success'', VBool True),
                      (py ''data'', VDict
                         [(py ''courseId'', VStr course_id),
                          (py ''found'', VBool True),
                          (py ''course'', VDict normalized_course),
                          (py ''message'',
                             VStr (py ''Course details retrieved successfully''))])])))"

subsection \<open>Responses and the handler\<close>

definition create_bedrock_response ::
  "course_env \<Rightarrow> str \<Rightarrow> str \<Rightarrow> str \<Rightarrow> (str \<times> val) list \<Rightarrow> val" where
  "create_bedrock_response env action_group api_path http_method result =
     (let status_code =
            (if val_truthy (dict_get result (py ''success'') (VBool False)) then 200 else 400)
      in VDict
        [(py ''messageVersion'', VStr (py ''1.0'')),
         (py ''response'', VDict
            [(py ''actionGroup'', VStr action_group),
             (py ''apiPath'', VStr api_path),
             (py ''httpMethod'', VStr http_method),
             (py ''httpStatusCode'', VInt status_code),
             (py ''responseBody'', VDict
                [(py ''application/json'', VDict
                    [(py ''body'', VStr (dumps env (VDict result)))])])])])"

text \<open>\<open>create_error_response\<close> of LambdaAction.py.\<close>

definition create_error_response_action :: "course_env \<Rightarrow> str \<Rightarrow> str \<Rightarrow> val" where
  "create_error_response_action env error_message details =
     (let error_result =
            [(py ''success'', VBool False),
             (py ''error'', VStr error_message),
             (py ''details'', VStr details)]
      in VDict
        [(py ''messageVersion'', VStr (py ''1.0'')),
         (py ''response'', VDict
            [(py ''actionGroup'', VStr (py ''CourseActionGroup'')),
             (py ''apiPath'', VStr (py ''/error'')),
             (py ''httpMethod'', VStr (py ''GET'')),
             (py ''httpStatusCode'', VInt 500),
             (py ''responseBody'', VDict
                [(py ''application/json'', VDict
                    [(py ''body'', VStr (dumps env (VDict error_result)))])])])])"

text \<open>
  The loop \<open>params[param['name']] = param['value']\<close>: the right-hand side is
  evaluated first; a missing key raises \<open>KeyError\<close>.
\<close>

fun collect_params ::
  "(str \<rightharpoonup> str) \<Rightarrow> (str \<times> str) list list \<Rightarrow> exn + (str \<rightharpoonup> str)" where
  "collect_params params [] = Inr params"
| "collect_params params (param # rest) =
     (case map_of param (py ''value'') of
        None \<Rightarrow> Inl (KeyError (py ''value''))
      | Some v \<Rightarrow>
         (case map_of param (py ''name'') of
            None \<Rightarrow> Inl (KeyError (py ''name''))
          | Some n \<Rightarrow> collect_params (params(n \<mapsto> v)) rest))"

definition available_paths :: "str list" where
  "available_paths = map py
     [''/getAllCourses'', ''/getCoursesByState'', ''/getCourseDetails'',
      ''/getCompletedCourses'', ''/getInProgressCourses'', ''/getNotStartedCourses'']"

definition unknown_path_result :: "str \<Rightarrow> (str \<times> val) list" where
  "unknown_path_result api_path =
     [(py ''success'', VBool False),
      (py ''error'', VStr (py ''Unknown API path: '' @ api_path)),
      (py ''availablePaths'', VList (map VStr available_paths))]"

text \<open>The \<open>if\<close>/\<open>elif\<close> chain on \<open>api_path\<close>.\<close>

definition route :: "course_env \<Rightarrow> table \<Rightarrow> str \<Rightarrow> (str \<rightharpoonup> str) \<Rightarrow> (str \<times> val) list" where
  "route env tbl api_path params =
     (if api_path = py ''/getAllCourses'' then get_all_courses env tbl
      else if api_path = py ''/getCoursesByState'' then get_courses_by_state env tbl params
      else if api_path = py ''/getCourseDetails'' then get_course_details env tbl params
      else if api_path = py ''/getCompletedCourses'' then
        get_courses_by_state env tbl [py ''state'' \<mapsto> py ''Completed'']
      else if api_path = py ''/getInProgressCourses'' then
        get_courses_by_state env tbl [py ''state'' \<mapsto> py ''In Progress'']
      else if api_path = py ''/getNotStartedCourses'' then
        get_courses_by_state env tbl [py ''state'' \<mapsto> py ''Not Started'']
      else unknown_path_result api_path)"

text \<open>\<open>lambda_handler\<close> of LambdaAction.py.\<close>

definition lambda_handler_action :: "course_env \<Rightarrow> action_event \<Rightarrow> val" where
  "lambda_handler_action env event =
     (case dynamodb_table env of
        Inl db_error \<Rightarrow>
          create_error_response_action env (py ''Database connection failed'') (exn_str db_error)
      | Inr tbl \<Rightarrow>
          let action_group = (case actionGroup event of Some g \<Rightarrow> g | None \<Rightarrow> py ''CourseActionGroup'');
              api_path = (case apiPath event of Some p \<Rightarrow> p | None \<Rightarrow> []);
              http_method = (case httpMethod event of Some m \<Rightarrow> m | None \<Rightarrow> py ''GET'')
          in (case collect_params Map.empty
                     (case parameters event of Some ps \<Rightarrow> ps | None \<Rightarrow> []) of
                Inl e \<Rightarrow>
                  create_bedrock_response env action_group api_path http_method
                    [(py ''success'', VBool False),
                     (py ''error'', VStr (py ''Internal error: '' @ exn_str e)),
                     (py ''type'', VStr (exn_type_name e))]
              | Inr params \<Rightarrow>
                  create_bedrock_response env action_group api_path http_method
                    (route env tbl api_path params)))"

subsection \<open>Notions used in the statements about the CourseQueryService\<close>

text \<open>All items of all pages of a scan.\<close>

fun page_items :: "pages \<Rightarrow> val list" where
  "page_items (LastPage items) = items"
| "page_items (Page items rest) = items @ page_items rest"
| "page_items (ScanRaises e) = []"

text \<open>An item the table holds: one a scan returns, or one \<open>get_item\<close> returns.\<close>

definition from_table :: "table \<Rightarrow> (str \<times> val) list \<Rightarrow> bool" where
  "from_table tbl item \<longleftrightarrow>
     (\<exists>state_filter. VDict item \<in> set (page_items (scan tbl state_filter)))
     \<or> (\<exists>course_id. get_item tbl course_id = Inr (Some (VDict item)))"

text \<open>
  Two records in ascending order of their identifiers under Python's comparison of
  strings, and a record whose identifier is a string.
\<close>

definition id_le :: "(str \<times> val) list \<Rightarrow> (str \<times> val) list \<Rightarrow> bool" where
  "id_le x y =
     (case (sort_key_CourseID x, sort_key_CourseID y) of
        (VStr a, VStr b) \<Rightarrow> a \<le> b
      | _ \<Rightarrow> False)"

definition has_string_id :: "(str \<times> val) list \<Rightarrow> bool" where
  "has_string_id x = (case sort_key_CourseID x of VStr a \<Rightarrow> True | _ \<Rightarrow> False)"

text \<open>
  A store for the examples: three courses, scanned in two pages, with the state
  filter applied by the store.
\<close>

definition example_items :: "val list" where
  "example_items =
     [VDict [(py ''CourseID'', VStr (py ''C2'')), (py ''Course Name'', VStr (py ''AWS Basics'')),
             (py ''Duration (hours)'', VDecimal (Decimal 45 (- 1))),
             (py ''State'', VStr (py ''Completed''))],
      VDict [(py ''CourseID'', VStr (py ''C10'')), (py ''Course Name'', VStr (py ''Python'')),
             (py ''Duration (hours)'', VDecimal (Decimal 12 0)),
             (py ''State'', VStr (py ''In Progress''))],
      VDict [(py ''CourseID'', VStr (py ''C1'')), (py ''Course Name'', VStr (py ''SQL'')),
             (py ''Duration (hours)'', VDecimal (Decimal 8 0)),
             (py ''State'', VStr (py ''Completed''))]]"

fun attribute_is :: "str \<Rightarrow> str \<Rightarrow> val \<Rightarrow> bool" where
  "attribute_is k s (VDict item) = (map_of item k = Some (VStr s))"
| "attribute_is k s x = False"

definition example_table :: "table" where
  "example_table =
     \<lparr>table_status = Inr (py ''ACTIVE''),
      scan = (\<lambda>state_filter. case state_filter of
                None \<Rightarrow> Page (take 2 example_items) (LastPage (drop 2 example_items))
              | Some state \<Rightarrow> LastPage (filter (attribute_is (py ''State'') state) example_items)),
      get_item = (\<lambda>course_id. Inr (find (attribute_is (py ''CourseID'') course_id) example_items))\<rparr>"

text \<open>
  A compact rendering of a value, used in place of \<open>json.dumps\<close> in the examples,
  and an environment in which keys that are not both strings do not compare.
\<close>

primrec render_val :: "val \<Rightarrow> str" where
  "render_val VNone = py ''null''"
| "render_val (VBool b) = (if b then py ''true'' else py ''false'')"
| "render_val (VInt i) = str_of_int i"
| "render_val (VFloat f) = (case f of float (Decimal m e) \<Rightarrow> str_of_int m @ 101 # str_of_int e)"
| "render_val (VDecimal d) = (case d of Decimal m e \<Rightarrow> 34 # str_of_int m @ 69 # str_of_int e @ [34])"
| "render_val (VStr s) = 34 # s @ [34]"
| "render_val (VBinary b) = 34 # b @ [34]"
| "render_val (VList xs) = 91 # concat (map (\<lambda>r. r @ [44]) (map render_val xs)) @ [93]"
| "render_val (VDict kvs) =
     123 # concat (map (\<lambda>(k, r). 34 # k @ 34 # 58 # r @ [44]) (map (map_prod id render_val) kvs)) @ [125]"
| "render_val (VSet xs) = 34 # py ''set'' @ [34]"

definition example_course_env :: "exn + table \<Rightarrow> course_env" where
  "example_course_env connection =
     \<lparr>dynamodb_table = connection,
      dumps = render_val,
      lt_other = (\<lambda>a b. Inl (TypeError []))\<rparr>"

text \<open>A normalised record whose four fields are two strings, a float and a string.\<close>

definition course_record :: "string \<Rightarrow> string \<Rightarrow> decimal \<Rightarrow> string \<Rightarrow> (str \<times> val) list" where
  "course_record course_id name hours state =
     [(py ''CourseID'', VStr (py course_id)), (py ''CourseName'', VStr (py name)),
      (py ''Duration'', VFloat (float hours)), (py ''State'', VStr (py state))]"

section \<open>Properties\<close>

subsection \<open>Auxiliary facts\<close>

lemma strip_empty_iff: "strip s = [] \<longleftrightarrow> list_all is_space s"
proof -
  have "(\<forall>x\<in>set (dropWhile is_space s). is_space x) \<longleftrightarrow> (\<forall>x\<in>set s. is_space x)"
  proof
    assume a: "\<forall>x\<in>set (dropWhile is_space s). is_space x"
    have "dropWhile is_space s = []"
    proof (rule ccontr)
      assume n: "dropWhile is_space s \<noteq> []"
      then have "\<not> is_space (hd (dropWhile is_space s))" by (rule hd_dropWhile)
      moreover have "hd (dropWhile is_space s) \<in> set (dropWhile is_space s)" using n by simp
      ultimately show False using a by blast
    qed
    then show "\<forall>x\<in>set s. is_space x" by simp
  next
    assume "\<forall>x\<in>set s. is_space x"
    then show "\<forall>x\<in>set (dropWhile is_space s). is_space x"
      by (meson set_dropWhileD)
  qed
  then show ?thesis
    by (simp add: strip_def list_all_iff)
qed

lemma fst_consume_stream:
  "fst (consume_stream acc s) = acc @ concat (chunk_texts s)"
  by (induction acc s rule: consume_stream.induct) simp_all

lemma snd_consume_stream:
  "(snd (consume_stream acc s) \<noteq> None) = faults s"
  by (induction acc s rule: consume_stream.induct) simp_all

lemma generate_result:
  assumes "\<And>call. invoke_agent env call = Inr s"
  shows "snd (generate_ai_response_with_agent env prompt session_id) =
           Inr (if strip (concat (chunk_texts s)) = [] then get_fallback_response
                else strip (concat (chunk_texts s)))"
  using fst_consume_stream[of "[]" s]
  by (auto simp: generate_ai_response_with_agent_def Let_def assms split: prod.splits)

lemma fallback_nonempty: "get_fallback_response \<noteq> []"
  by (simp add: get_fallback_response_def py_def)


lemma scan_all_items:
  "scan_all acc ps = Inr items \<Longrightarrow> items = acc @ page_items ps"
  by (induction acc ps rule: scan_all.induct) auto

lemma map_of_convert:
  "map_of (map (map_prod id convert_decimals) kvs) k = map_option convert_decimals (map_of kvs k)"
  by (induction kvs) auto

lemma dict_get_convert:
  "dict_get (map (map_prod id convert_decimals) item) k (VStr []) =
     convert_decimals (dict_get item k (VStr []))"
  by (simp add: dict_get_def map_of_convert split: option.splits)

lemma convert_not_decimal: "convert_decimals v \<noteq> VDecimal d"
  by (cases v) auto

lemma normalize_convert_dict:
  "normalize_course (convert_decimals (VDict item)) = Inr
     [(py ''CourseID'', convert_decimals (dict_get item (py ''CourseID'') (VStr []))),
      (py ''CourseName'', convert_decimals (dict_get item (py ''Course Name'') (VStr []))),
      (py ''Duration'', convert_decimals (dict_get item (py ''Duration (hours)'') (VStr []))),
      (py ''State'', convert_decimals (dict_get item (py ''State'') (VStr [])))]"
  by (simp add: dict_get_convert)

lemma normalize_convert_Inr:
  "normalize_course (convert_decimals x) = Inr c \<Longrightarrow> \<exists>item. x = VDict item"
  by (cases x) auto

lemma duration_key: "map_of
     [(py ''CourseID'', a), (py ''CourseName'', b), (py ''Duration'', c), (py ''State'', d)]
     (py ''Duration'') = Some c"
  by (simp add: py_def)

lemma normalize_courses_origin:
  "normalize_courses (map convert_decimals items) = Inr cs \<Longrightarrow> c \<in> set cs \<Longrightarrow>
     \<exists>item. VDict item \<in> set items \<and> normalize_course (convert_decimals (VDict item)) = Inr c"
proof (induction items arbitrary: cs)
  case Nil
  then show ?case by simp
next
  case (Cons x items)
  from Cons.prems(1) obtain c0 cs0 where
    c0: "normalize_course (convert_decimals x) = Inr c0"
    and cs0: "normalize_courses (map convert_decimals items) = Inr cs0"
    and cs: "cs = c0 # cs0"
    by (auto split: sum.splits)
  from normalize_convert_Inr [OF c0] obtain item where x: "x = VDict item" by blast
  show ?case
  proof (cases "c = c0")
    case True
    with c0 x show ?thesis by auto
  next
    case False
    with Cons.prems(2) cs have "c \<in> set cs0" by simp
    from Cons.IH [OF cs0 this] show ?thesis by auto
  qed
qed

lemma insert_sorted_set:
  "insert_sorted env x ys = Inr r \<Longrightarrow> set r = insert x (set ys)"
proof (induction ys arbitrary: r)
  case Nil
  then show ?case by auto
next
  case (Cons y ys)
  show ?case
  proof (cases "py_lt env (sort_key_CourseID y) (sort_key_CourseID x)")
    case (Inl e)
    with Cons.prems show ?thesis by simp
  next
    case (Inr b)
    show ?thesis
    proof (cases b)
      case True
      with Inr Cons.prems obtain r' where
        r': "insert_sorted env x ys = Inr r'" and r: "r = y # r'"
        by (cases "insert_sorted env x ys") auto
      from Cons.IH [OF r'] r show ?thesis by auto
    next
      case False
      with Inr Cons.prems show ?thesis by auto
    qed
  qed
qed

lemma sort_by_CourseID_set:
  "sort_by_CourseID env xs = Inr ys \<Longrightarrow> set ys = set xs"
proof (induction xs arbitrary: ys)
  case Nil
  then show ?case by simp
next
  case (Cons x xs)
  from Cons.prems obtain s where
    s: "sort_by_CourseID env xs = Inr s" and i: "insert_sorted env x s = Inr ys"
    by (cases "sort_by_CourseID env xs") auto
  from insert_sorted_set [OF i] Cons.IH [OF s] show ?case by simp
qed
lemma has_string_id_iff: "has_string_id x \<longleftrightarrow> (\<exists>a. sort_key_CourseID x = VStr a)"
  by (cases "sort_key_CourseID x") (simp_all add: has_string_id_def)

lemma id_le_iff:
  "id_le x y \<longleftrightarrow> (\<exists>a b. sort_key_CourseID x = VStr a \<and> sort_key_CourseID y = VStr b \<and> a \<le> b)"
  by (cases "sort_key_CourseID x"; cases "sort_key_CourseID y") (simp_all add: id_le_def)

lemma id_le_trans: "id_le x y \<Longrightarrow> id_le y z \<Longrightarrow> id_le x z"
  by (auto simp: id_le_iff)

lemma insert_sorted_sorted:
  "insert_sorted env x ys = Inr r \<Longrightarrow> has_string_id x \<Longrightarrow> list_all has_string_id ys \<Longrightarrow>
     sorted_wrt id_le ys \<Longrightarrow> sorted_wrt id_le r"
proof (induction ys arbitrary: r)
  case Nil
  then show ?case by auto
next
  case (Cons y ys)
  from Cons.prems(2,3) obtain a b where
    a: "sort_key_CourseID x = VStr a" and b: "sort_key_CourseID y = VStr b"
    by (auto simp: has_string_id_iff)
  show ?case
  proof (cases "b < a")
    case True
    with Cons.prems(1) a b obtain r' where
      r': "insert_sorted env x ys = Inr r'" and r: "r = y # r'"
      by (cases "insert_sorted env x ys") auto
    from Cons.prems have s: "sorted_wrt id_le r'"
      using Cons.IH [OF r'] by simp
    have "id_le y x" using True a b by (simp add: id_le_iff)
    moreover have "\<forall>z\<in>set ys. id_le y z" using Cons.prems(4) by simp
    ultimately have "\<forall>z\<in>set r'. id_le y z"
      using insert_sorted_set [OF r'] by auto
    with s r show ?thesis by simp
  next
    case False
    with Cons.prems(1) a b have r: "r = x # y # ys" by auto
    have xy: "id_le x y" using False a b by (simp add: id_le_iff)
    moreover have "\<forall>z\<in>set ys. id_le x z"
      using Cons.prems(4) xy id_le_trans by auto
    ultimately show ?thesis using r Cons.prems(4) by simp
  qed
qed

lemma sort_by_CourseID_sorted:
  "sort_by_CourseID env xs = Inr ys \<Longrightarrow> list_all has_string_id ys \<Longrightarrow> sorted_wrt id_le ys"
proof (induction xs arbitrary: ys)
  case Nil
  then show ?case by simp
next
  case (Cons x xs)
  from Cons.prems(1) obtain s where
    s: "sort_by_CourseID env xs = Inr s" and i: "insert_sorted env x s = Inr ys"
    by (cases "sort_by_CourseID env xs") auto
  from insert_sorted_set [OF i] Cons.prems(2)
  have h: "has_string_id x" "list_all has_string_id s"
    by (auto simp: list_all_iff)
  from Cons.IH [OF s h(2)] have "sorted_wrt id_le s" .
  from insert_sorted_sorted [OF i h this] show ?case .
qed
lemma map_VDict_eq: "map VDict xs = map VDict ys \<longleftrightarrow> xs = ys"
  by (simp add: inj_def)

lemma get_all_courses_data:
  assumes "map_of (get_all_courses env tbl) (py ''data'') = Some (VDict d)"
  shows "\<exists>items cs. scan_all [] (scan tbl None) = Inr items \<and> normalize_and_sort env items = Inr cs
           \<and> map_of d (py ''courses'') = Some (VList (map VDict cs))
           \<and> map_of d (py ''course'') = None"
proof (cases "table_status tbl")
  case (Inl e)
  with assms show ?thesis by (simp add: get_all_courses_def py_def)
next
  case st: (Inr st)
  show ?thesis
  proof (cases "scan_all [] (scan tbl None)")
    case (Inl e)
    with assms st show ?thesis by (simp add: get_all_courses_def py_def)
  next
    case items: (Inr items)
    show ?thesis
    proof (cases "normalize_and_sort env items")
      case (Inl e)
      with assms st items show ?thesis by (simp add: get_all_courses_def py_def)
    next
      case (Inr cs)
      have "map_of d (py ''courses'') = Some (VList (map VDict cs)) \<and> map_of d (py ''course'') = None"
        using assms st items Inr by (auto simp: get_all_courses_def py_def)
      with items Inr show ?thesis by blast
    qed
  qed
qed

lemma get_courses_by_state_data:
  assumes "map_of (get_courses_by_state env tbl params) (py ''data'') = Some (VDict d)"
  shows "\<exists>state items cs. scan_all [] (scan tbl (Some state)) = Inr items
           \<and> normalize_and_sort env items = Inr cs
           \<and> map_of d (py ''courses'') = Some (VList (map VDict cs))
           \<and> map_of d (py ''course'') = None"
proof (cases "params (py ''state'')")
  case None
  with assms show ?thesis by (simp add: get_courses_by_state_def py_def)
next
  case (Some state)
  show ?thesis
  proof (cases "state = []")
    case True
    with assms Some show ?thesis by (simp add: get_courses_by_state_def py_def)
  next
    case ne: False
    show ?thesis
    proof (cases "scan_all [] (scan tbl (Some state))")
      case (Inl e)
      with assms Some ne show ?thesis by (simp add: get_courses_by_state_def py_def)
    next
      case items: (Inr items)
      show ?thesis
      proof (cases "normalize_and_sort env items")
        case (Inl e)
        with assms Some ne items show ?thesis by (simp add: get_courses_by_state_def py_def)
      next
        case (Inr cs)
        have "map_of d (py ''courses'') = Some (VList (map VDict cs)) \<and> map_of d (py ''course'') = None"
          using assms Some ne items Inr by (auto simp: get_courses_by_state_def py_def)
        with items Inr show ?thesis by blast
      qed
    qed
  qed
qed

lemma get_course_details_data:
  assumes "map_of (get_course_details env tbl params) (py ''data'') = Some (VDict d)"
  shows "map_of d (py ''courses'') = None
         \<and> (map_of d (py ''course'') = None
            \<or> (\<exists>course_id item c. get_item tbl course_id = Inr (Some item)
                  \<and> normalize_course (convert_decimals item) = Inr c
                  \<and> map_of d (py ''course'') = Some (VDict c)))"
proof (cases "params (py ''courseId'')")
  case None
  with assms show ?thesis by (simp add: get_course_details_def py_def)
next
  case (Some course_id)
  show ?thesis
  proof (cases "course_id = []")
    case True
    with assms Some show ?thesis by (simp add: get_course_details_def py_def)
  next
    case ne: False
    show ?thesis
    proof (cases "get_item tbl course_id")
      case (Inl e)
      with assms Some ne show ?thesis by (simp add: get_course_details_def py_def)
    next
      case got: (Inr found)
      show ?thesis
      proof (cases found)
        case None
        with assms Some ne got show ?thesis by (auto simp: get_course_details_def py_def)
      next
        case item: (Some item)
        show ?thesis
        proof (cases "normalize_course (convert_decimals item)")
          case (Inl e)
          with assms Some ne got item show ?thesis by (simp add: get_course_details_def py_def)
        next
          case (Inr c)
          have "map_of d (py ''courses'') = None \<and> map_of d (py ''course'') = Some (VDict c)"
            using assms Some ne got item Inr by (auto simp: get_course_details_def py_def)
          with got item Inr show ?thesis by blast
        qed
      qed
    qed
  qed
qed

lemma unknown_path_no_data: "map_of (unknown_path_result api_path) (py ''data'') = None"
  by (simp add: unknown_path_result_def py_def)

lemma route_data:
  assumes "map_of (route env tbl api_path params) (py ''data'') = Some (VDict d)"
  shows "(\<exists>state_filter items cs. scan_all [] (scan tbl state_filter) = Inr items
            \<and> normalize_and_sort env items = Inr cs
            \<and> map_of d (py ''courses'') = Some (VList (map VDict cs))
            \<and> map_of d (py ''course'') = None)
         \<or> (map_of d (py ''courses'') = None
            \<and> (map_of d (py ''course'') = None
               \<or> (\<exists>course_id item c. get_item tbl course_id = Inr (Some item)
                     \<and> normalize_course (convert_decimals item) = Inr c
                     \<and> map_of d (py ''course'') = Some (VDict c))))"
proof -
  have "route env tbl api_path params = get_all_courses env tbl
      \<or> (\<exists>ps. route env tbl api_path params = get_courses_by_state env tbl ps)
      \<or> route env tbl api_path params = get_course_details env tbl params
      \<or> route env tbl api_path params = unknown_path_result api_path"
    unfolding route_def by auto
  then consider (all) "route env tbl api_path params = get_all_courses env tbl"
    | (state) ps where "route env tbl api_path params = get_courses_by_state env tbl ps"
    | (details) "route env tbl api_path params = get_course_details env tbl params"
    | (unknown) "route env tbl api_path params = unknown_path_result api_path"
    by blast
  then show ?thesis
  proof cases
    case all
    with assms get_all_courses_data [of env tbl d] show ?thesis by metis
  next
    case state
    with assms get_courses_by_state_data [of env tbl ps d] show ?thesis by metis
  next
    case details
    with assms get_course_details_data [of env tbl params d] show ?thesis by metis
  next
    case unknown
    with assms unknown_path_no_data show ?thesis by simp
  qed
qed

lemma normalize_and_sort_origin:
  assumes "normalize_and_sort env items = Inr cs" and "c \<in> set cs"
  shows "\<exists>item. VDict item \<in> set items \<and> normalize_course (convert_decimals (VDict item)) = Inr c"
proof -
  from assms(1) obtain ncs where
    n: "normalize_courses (map convert_decimals items) = Inr ncs"
    and s: "sort_by_CourseID env ncs = Inr cs"
    unfolding normalize_and_sort_def
    by (cases "normalize_courses (map convert_decimals items)") auto
  from sort_by_CourseID_set [OF s] assms(2) have "c \<in> set ncs" by simp
  from normalize_courses_origin [OF n this] show ?thesis .
qed

lemma normalize_and_sort_sorted:
  assumes "normalize_and_sort env items = Inr cs" and "list_all has_string_id cs"
  shows "sorted_wrt id_le cs"
proof -
  from assms(1) obtain ncs where s: "sort_by_CourseID env ncs = Inr cs"
    unfolding normalize_and_sort_def
    by (cases "normalize_courses (map convert_decimals items)") auto
  from sort_by_CourseID_sorted [OF s assms(2)] show ?thesis .
qed
lemma param_keys:
  "py ''value'' \<noteq> py ''name''" "py ''name'' \<noteq> py ''value''"
  "py ''value'' \<noteq> py ''type''" "py ''name'' \<noteq> py ''type''"
  by (simp_all add: py_def)

lemma duration_of_normalized:
  assumes "normalize_course (convert_decimals (VDict item)) = Inr c"
  shows "map_of c (py ''Duration'') =
           Some (convert_decimals (dict_get item (py ''Duration (hours)'') (VStr [])))"
proof -
  from assms have c: "c =
     [(py ''CourseID'', convert_decimals (dict_get item (py ''CourseID'') (VStr []))),
      (py ''CourseName'', convert_decimals (dict_get item (py ''Course Name'') (VStr []))),
      (py ''Duration'', convert_decimals (dict_get item (py ''Duration (hours)'') (VStr []))),
      (py ''State'', convert_decimals (dict_get item (py ''State'') (VStr [])))]"
    unfolding normalize_convert_dict by simp
  show ?thesis unfolding c by (rule duration_key)
qed

subsection \<open>AgentRouter: request handling, classification, selection, aggregation\<close>



text \<open>
  C2. A prompt whose lower-cased text contains a keyword of the non-technical list
  and a keyword of the technical list is rejected: the non-technical match decides.
\<close>

theorem C2_non_technical_precedence:
  assumes "kn \<in> set non_technical_keywords" and "str_in kn (lower prompt)"
    and "kt \<in> set technical_keywords" and "str_in kt (lower prompt)"
  shows "is_technical_query prompt = False"
  using assms(1,2) by (auto simp: is_technical_query_def list_ex_iff)

theorem C2_non_technical_precedence_witness:
  "py ''cook'' \<in> set non_technical_keywords
   \<and> str_in (py ''cook'') (lower (py ''Python COOKING course''))
   \<and> py ''python'' \<in> set technical_keywords
   \<and> str_in (py ''python'') (lower (py ''Python COOKING course''))
   \<and> is_technical_query (py ''Python COOKING course'') = False"
proof -
  have a: "py ''cook'' \<in> set non_technical_keywords"
    by (simp add: non_technical_keywords_def)
  have b: "str_in (py ''cook'') (lower (py ''Python COOKING course''))"
    by (simp add: py_def lower_def lower_cp_def)
  have c: "py ''python'' \<in> set technical_keywords"
    by (simp add: technical_keywords_def)
  have d: "str_in (py ''python'') (lower (py ''Python COOKING course''))"
    by (simp add: py_def lower_def lower_cp_def)
  from C2_non_technical_precedence [OF a b c d] a b c d show ?thesis by simp
qed

text \<open>
  C3. The one call made to \<open>invoke_agent\<close> carries the course agent's id and alias
  when the lower-cased prompt contains one of the course phrases, and the general
  agent's id and alias otherwise; where the two identities differ, the course agent
  is the one invoked if and only if a phrase occurs.
\<close>

theorem C3_agent_selection:
  "fst (generate_ai_response_with_agent env prompt session_id) =
     [if (\<exists>keyword\<in>set mycourse_keywords. str_in keyword (lower prompt)) then
        \<lparr>agentId = BEDROCK_COURSEAGENT_ID env, agentAliasId = BEDROCK_COURSEAGENT_ALIAS_ID env,
         sessionId = session_id, inputText = prompt, enableTrace = False, endSession = False\<rparr>
      else
        \<lparr>agentId = BEDROCK_AGENT_ID env, agentAliasId = BEDROCK_AGENT_ALIAS_ID env,
         sessionId = session_id, inputText = prompt, enableTrace = False, endSession = False\<rparr>]
   \<and> ((BEDROCK_COURSEAGENT_ID env, BEDROCK_COURSEAGENT_ALIAS_ID env)
          \<noteq> (BEDROCK_AGENT_ID env, BEDROCK_AGENT_ALIAS_ID env) \<longrightarrow>
        (fst (generate_ai_response_with_agent env prompt session_id) =
           [\<lparr>agentId = BEDROCK_COURSEAGENT_ID env,
             agentAliasId = BEDROCK_COURSEAGENT_ALIAS_ID env,
             sessionId = session_id, inputText = prompt,
             enableTrace = False, endSession = False\<rparr>]
         \<longleftrightarrow> (\<exists>keyword\<in>set mycourse_keywords. str_in keyword (lower prompt))))"
  by (auto simp: generate_ai_response_with_agent_def Let_def list_ex_iff)

theorem C3_agent_selection_witness:
  "(\<exists>keyword\<in>set mycourse_keywords. str_in keyword (lower (py ''Show all my courses'')))
   \<and> (BEDROCK_COURSEAGENT_ID (example_env (Inr EndOfStream)),
        BEDROCK_COURSEAGENT_ALIAS_ID (example_env (Inr EndOfStream)))
       \<noteq> (BEDROCK_AGENT_ID (example_env (Inr EndOfStream)),
          BEDROCK_AGENT_ALIAS_ID (example_env (Inr EndOfStream)))
   \<and> fst (generate_ai_response_with_agent (example_env (Inr EndOfStream))
            (py ''Show all my courses'') (JStr (py ''abc''))) =
       [\<lparr>agentId = py ''COURSEAGENT'', agentAliasId = py ''COURSEALIAS'',
         sessionId = JStr (py ''abc''), inputText = py ''Show all my courses'',
         enableTrace = False, endSession = False\<rparr>]"
proof -
  have k: "py ''all my course'' \<in> set mycourse_keywords"
    by (simp add: mycourse_keywords_def)
  have s: "str_in (py ''all my course'') (lower (py ''Show all my courses''))"
    by (simp add: py_def lower_def lower_cp_def)
  have a: "\<exists>keyword\<in>set mycourse_keywords. str_in keyword (lower (py ''Show all my courses''))"
    using k s by blast
  have d: "(BEDROCK_COURSEAGENT_ID (example_env (Inr EndOfStream)),
            BEDROCK_COURSEAGENT_ALIAS_ID (example_env (Inr EndOfStream)))
         \<noteq> (BEDROCK_AGENT_ID (example_env (Inr EndOfStream)),
            BEDROCK_AGENT_ALIAS_ID (example_env (Inr EndOfStream)))"
    by (simp add: example_env_def py_def)
  from C3_agent_selection [of "example_env (Inr EndOfStream)" "py ''Show all my courses''"
      "JStr (py ''abc'')"] a d
  show ?thesis by (simp add: example_env_def)
qed

text \<open>
  C4, as stated, fails: a stream that yields the single chunk \<open>" "\<close> and then
  raises has a text-bearing chunk, yet the result is the fallback message and not the
  trimmed concatenation (the empty string).
\<close>

theorem C4_whitespace_chunk_counterexample:
  "chunk_texts (Yield (Chunk (Some (Utf8 (py '' ''))))
       (StreamRaises (Exception (py ''EventStreamError'') (py ''connection reset'')))) = [py '' '']
   \<and> faults (Yield (Chunk (Some (Utf8 (py '' ''))))
       (StreamRaises (Exception (py ''EventStreamError'') (py ''connection reset''))))
   \<and> snd (generate_ai_response_with_agent
         (example_env (Inr (Yield (Chunk (Some (Utf8 (py '' ''))))
            (StreamRaises (Exception (py ''EventStreamError'') (py ''connection reset''))))))
         (py ''What is Python?'') (JStr (py ''abc'')))
       = Inr get_fallback_response
   \<and> Inr get_fallback_response \<noteq> (Inr (strip (concat [py '' ''])) :: exn + str)"
proof -
  have i: "\<And>call. invoke_agent (example_env (Inr (Yield (Chunk (Some (Utf8 (py '' ''))))
            (StreamRaises (Exception (py ''EventStreamError'') (py ''connection reset'')))))) call
          = Inr (Yield (Chunk (Some (Utf8 (py '' ''))))
            (StreamRaises (Exception (py ''EventStreamError'') (py ''connection reset''))))"
    by (simp add: example_env_def)
  have s: "strip (py '' '') = []"
    by (simp add: strip_def is_space_def py_def)
  show ?thesis
    using generate_result [OF i, of "py ''What is Python?''" "JStr (py ''abc'')"] s fallback_nonempty
    by simp
qed

text \<open>
  C4, amended. When the stream yields at least one text-bearing chunk and then
  raises, the result is the concatenation, in emission order, of the chunk texts
  received before the fault, trimmed of surrounding whitespace, provided that text
  is not made of whitespace only; when it is, the result is the fallback message.
\<close>

theorem C4_partial_text:
  assumes "\<And>call. invoke_agent env call = Inr s"
    and "chunk_texts s \<noteq> []" and "faults s"
  shows "snd (generate_ai_response_with_agent env prompt session_id) =
           Inr (if list_all is_space (concat (chunk_texts s)) then get_fallback_response
                else strip (concat (chunk_texts s)))"
  using generate_result [OF assms(1)] by (simp add: strip_empty_iff)

theorem C4_partial_text_witness:
  "chunk_texts (Yield (Chunk (Some (Utf8 (py '' You have''))))
      (Yield Trace (Yield (Chunk (Some (Utf8 (py '' 2 courses. ''))))
        (StreamRaises (Exception (py ''EventStreamError'') (py ''connection reset'')))))) \<noteq> []
   \<and> faults (Yield (Chunk (Some (Utf8 (py '' You have''))))
      (Yield Trace (Yield (Chunk (Some (Utf8 (py '' 2 courses. ''))))
        (StreamRaises (Exception (py ''EventStreamError'') (py ''connection reset''))))))
   \<and> snd (generate_ai_response_with_agent
         (example_env (Inr (Yield (Chunk (Some (Utf8 (py '' You have''))))
            (Yield Trace (Yield (Chunk (Some (Utf8 (py '' 2 courses. ''))))
              (StreamRaises (Exception (py ''EventStreamError'') (py ''connection reset''))))))))
         (py ''Show all my courses'') (JStr (py ''abc'')))
       = Inr (py ''You have 2 courses.'')"
proof -
  let ?s = "Yield (Chunk (Some (Utf8 (py '' You have''))))
      (Yield Trace (Yield (Chunk (Some (Utf8 (py '' 2 courses. ''))))
        (StreamRaises (Exception (py ''EventStreamError'') (py ''connection reset'')))))"
  have i: "\<And>call. invoke_agent (example_env (Inr ?s)) call = Inr ?s"
    by (simp add: example_env_def)
  have c: "chunk_texts ?s \<noteq> []" by simp
  have f: "faults ?s" by simp
  have t: "concat (chunk_texts ?s) = py '' You have 2 courses. ''"
    by (simp add: py_def)
  have w: "\<not> list_all is_space (py '' You have 2 courses. '')"
    by (simp add: py_def is_space_def)
  have r: "strip (py '' You have 2 courses. '') = py ''You have 2 courses.''"
    by (simp add: strip_def py_def is_space_def)
  from C4_partial_text [OF i c f, of "py ''Show all my courses''" "JStr (py ''abc'')"] c f
  show ?thesis unfolding t using w r by simp
qed

text \<open>
  C5. A stream that ends normally without a text-bearing chunk, or with chunk texts
  made of whitespace only, and a stream that raises before any text-bearing chunk is
  received, both give exactly the fallback message.
\<close>

theorem C5_fallback:
  assumes "\<And>call. invoke_agent env call = Inr s"
    and "(\<not> faults s \<and> (chunk_texts s = [] \<or> list_all is_space (concat (chunk_texts s))))
         \<or> (faults s \<and> chunk_texts s = [])"
  shows "snd (generate_ai_response_with_agent env prompt session_id) = Inr get_fallback_response"
proof -
  from assms(2) have "list_all is_space (concat (chunk_texts s))" by auto
  then show ?thesis
    using generate_result [OF assms(1)] by (simp add: strip_empty_iff)
qed

theorem C5_fallback_witness:
  "(\<not> faults (Yield Trace (Yield (Chunk None) EndOfStream))
      \<and> chunk_texts (Yield Trace (Yield (Chunk None) EndOfStream)) = [])
   \<and> snd (generate_ai_response_with_agent
        (example_env (Inr (Yield Trace (Yield (Chunk None) EndOfStream))))
        (py ''What is Python?'') (JStr (py ''abc''))) = Inr get_fallback_response
   \<and> (faults (StreamRaises (Exception (py ''EventStreamError'') (py ''connection reset'')))
      \<and> chunk_texts (StreamRaises (Exception (py ''EventStreamError'') (py ''connection reset''))) = [])
   \<and> snd (generate_ai_response_with_agent
        (example_env (Inr (StreamRaises (Exception (py ''EventStreamError'') (py ''connection reset'')))))
        (py ''What is Python?'') (JStr (py ''abc''))) = Inr get_fallback_response"
proof -
  let ?a = "Yield Trace (Yield (Chunk None) EndOfStream)"
  let ?b = "StreamRaises (Exception (py ''EventStreamError'') (py ''connection reset''))"
  have ia: "\<And>call. invoke_agent (example_env (Inr ?a)) call = Inr ?a"
    by (simp add: example_env_def)
  have ib: "\<And>call. invoke_agent (example_env (Inr ?b)) call = Inr ?b"
    by (simp add: example_env_def)
  have ha: "(\<not> faults ?a \<and> (chunk_texts ?a = [] \<or> list_all is_space (concat (chunk_texts ?a))))
         \<or> (faults ?a \<and> chunk_texts ?a = [])" by simp
  have hb: "(\<not> faults ?b \<and> (chunk_texts ?b = [] \<or> list_all is_space (concat (chunk_texts ?b))))
         \<or> (faults ?b \<and> chunk_texts ?b = [])" by simp
  from C5_fallback [OF ia ha, of "py ''What is Python?''" "JStr (py ''abc'')"]
       C5_fallback [OF ib hb, of "py ''What is Python?''" "JStr (py ''abc'')"]
  show ?thesis by simp
qed

subsection \<open>CourseQueryService\<close>

text \<open>
  C6, as stated, fails. When the DynamoDB resource cannot be set up the handler
  answers every event, whatever its path, with the status-500 envelope of
  \<open>create_error_response\<close>; and a parameter entry without \<open>'value'\<close> raises
  \<open>KeyError\<close> before the path is looked at, which gives an \<open>Internal error\<close>
  result. Neither enumerates the valid paths.
\<close>

theorem C6_failed_setup_counterexample:
  "py ''/getEverything'' \<notin> set available_paths
   \<and> lambda_handler_action
       (example_course_env (Inl (Exception (py ''NoRegionError'') (py ''You must specify a region.''))))
       \<lparr>actionGroup = Some (py ''CourseActionGroup''), apiPath = Some (py ''/getEverything''),
        httpMethod = Some (py ''GET''), parameters = Some []\<rparr>
     = VDict
        [(py ''messageVersion'', VStr (py ''1.0'')),
         (py ''response'', VDict
            [(py ''actionGroup'', VStr (py ''CourseActionGroup'')),
             (py ''apiPath'', VStr (py ''/error'')),
             (py ''httpMethod'', VStr (py ''GET'')),
             (py ''httpStatusCode'', VInt 500),
             (py ''responseBody'', VDict
                [(py ''application/json'', VDict
                    [(py ''body'', VStr (render_val (VDict
                        [(py ''success'', VBool False),
                         (py ''error'', VStr (py ''Database connection failed'')),
                         (py ''details'', VStr (py ''You must specify a region.''))])))])])])]
   \<and> lambda_handler_action (example_course_env (Inr example_table))
       \<lparr>actionGroup = Some (py ''CourseActionGroup''), apiPath = Some (py ''/getEverything''),
        httpMethod = Some (py ''GET''), parameters = Some [[(py ''name'', py ''state'')]]\<rparr>
     = VDict
        [(py ''messageVersion'', VStr (py ''1.0'')),
         (py ''response'', VDict
            [(py ''actionGroup'', VStr (py ''CourseActionGroup'')),
             (py ''apiPath'', VStr (py ''/getEverything'')),
             (py ''httpMethod'', VStr (py ''GET'')),
             (py ''httpStatusCode'', VInt 400),
             (py ''responseBody'', VDict
                [(py ''application/json'', VDict
                    [(py ''body'', VStr (render_val (VDict
                        [(py ''success'', VBool False),
                         (py ''error'', VStr (py ''Internal error: '' @ 39 # py ''value'' @ [39])),
                         (py ''type'', VStr (py ''KeyError''))])))])])])]"
proof -
  have a: "py ''/getEverything'' \<notin> set available_paths"
    by (simp add: available_paths_def py_def)
  have b: "lambda_handler_action
       (example_course_env (Inl (Exception (py ''NoRegionError'') (py ''You must specify a region.''))))
       \<lparr>actionGroup = Some (py ''CourseActionGroup''), apiPath = Some (py ''/getEverything''),
        httpMethod = Some (py ''GET''), parameters = Some []\<rparr>
     = create_error_response_action
         (example_course_env (Inl (Exception (py ''NoRegionError'') (py ''You must specify a region.''))))
         (py ''Database connection failed'') (py ''You must specify a region.'')"
    by (simp add: lambda_handler_action_def example_course_env_def)
  have c: "lambda_handler_action (example_course_env (Inr example_table))
       \<lparr>actionGroup = Some (py ''CourseActionGroup''), apiPath = Some (py ''/getEverything''),
        httpMethod = Some (py ''GET''), parameters = Some [[(py ''name'', py ''state'')]]\<rparr>
     = create_bedrock_response (example_course_env (Inr example_table))
         (py ''CourseActionGroup'') (py ''/getEverything'') (py ''GET'')
         [(py ''success'', VBool False),
          (py ''error'', VStr (py ''Internal error: '' @ 39 # py ''value'' @ [39])),
          (py ''type'', VStr (py ''KeyError''))]"
    by (simp add: lambda_handler_action_def example_course_env_def param_keys KeyError_def)
  show ?thesis
    unfolding b c using a
    by (simp add: create_error_response_action_def create_bedrock_response_def
        example_course_env_def dict_get_def)
qed

text \<open>
  C6, amended. When the table handle is obtained and every entry of
  \<open>parameters\<close> has a name and a value, an event whose \<open>apiPath\<close> is not one of the
  six supported paths gets the result that names the path and enumerates the six
  valid ones, wrapped in the Bedrock envelope with status 400. The envelope built by
  \<open>create_bedrock_response\<close> has status 200 when the result's \<open>success\<close> is true and
  400 otherwise.
\<close>

theorem C6_unknown_path:
  assumes "dynamodb_table env = Inr tbl"
    and "collect_params Map.empty (case parameters event of Some ps \<Rightarrow> ps | None \<Rightarrow> []) = Inr params"
    and "api_path = (case apiPath event of Some p \<Rightarrow> p | None \<Rightarrow> [])"
    and "api_path \<notin> set available_paths"
  shows "lambda_handler_action env event = VDict
        [(py ''messageVersion'', VStr (py ''1.0'')),
         (py ''response'', VDict
            [(py ''actionGroup'',
                VStr (case actionGroup event of Some g \<Rightarrow> g | None \<Rightarrow> py ''CourseActionGroup'')),
             (py ''apiPath'', VStr api_path),
             (py ''httpMethod'',
                VStr (case httpMethod event of Some m \<Rightarrow> m | None \<Rightarrow> py ''GET'')),
             (py ''httpStatusCode'', VInt 400),
             (py ''responseBody'', VDict
                [(py ''application/json'', VDict
                    [(py ''body'', VStr (dumps env (VDict
                        [(py ''success'', VBool False),
                         (py ''error'', VStr (py ''Unknown API path: '' @ api_path)),
                         (py ''availablePaths'', VList (map VStr available_paths))])))])])])]
     \<and> (\<forall>action_group path http_method result.
          create_bedrock_response env action_group path http_method result = VDict
            [(py ''messageVersion'', VStr (py ''1.0'')),
             (py ''response'', VDict
                [(py ''actionGroup'', VStr action_group),
                 (py ''apiPath'', VStr path),
                 (py ''httpMethod'', VStr http_method),
                 (py ''httpStatusCode'',
                    VInt (if val_truthy (dict_get result (py ''success'') (VBool False))
                          then 200 else 400)),
                 (py ''responseBody'', VDict
                    [(py ''application/json'', VDict
                        [(py ''body'', VStr (dumps env (VDict result)))])])])])"
proof -
  from assms(4) have r: "route env tbl api_path params = unknown_path_result api_path"
    by (simp add: route_def available_paths_def)
  have t: "\<not> val_truthy (dict_get (unknown_path_result api_path) (py ''success'') (VBool False))"
    by (simp add: unknown_path_result_def dict_get_def)
  have "lambda_handler_action env event =
      create_bedrock_response env
        (case actionGroup event of Some g \<Rightarrow> g | None \<Rightarrow> py ''CourseActionGroup'')
        api_path
        (case httpMethod event of Some m \<Rightarrow> m | None \<Rightarrow> py ''GET'')
        (unknown_path_result api_path)"
    using assms(1,2) r
    by (simp add: lambda_handler_action_def Let_def assms(3) [symmetric])
  then show ?thesis
    using t by (simp add: create_bedrock_response_def unknown_path_result_def)
qed

theorem C6_unknown_path_witness:
  "dynamodb_table (example_course_env (Inr example_table)) = Inr example_table
   \<and> collect_params Map.empty [] = Inr Map.empty
   \<and> py ''/getEverything'' \<notin> set available_paths
   \<and> lambda_handler_action (example_course_env (Inr example_table))
       \<lparr>actionGroup = Some (py ''CourseActionGroup''), apiPath = Some (py ''/getEverything''),
        httpMethod = Some (py ''GET''), parameters = Some []\<rparr>
     = VDict
        [(py ''messageVersion'', VStr (py ''1.0'')),
         (py ''response'', VDict
            [(py ''actionGroup'', VStr (py ''CourseActionGroup'')),
             (py ''apiPath'', VStr (py ''/getEverything'')),
             (py ''httpMethod'', VStr (py ''GET'')),
             (py ''httpStatusCode'', VInt 400),
             (py ''responseBody'', VDict
                [(py ''application/json'', VDict
                    [(py ''body'', VStr (render_val (VDict
                        [(py ''success'', VBool False),
                         (py ''error'', VStr (py ''Unknown API path: /getEverything'')),
                         (py ''availablePaths'', VList (map (VStr \<circ> py)
                            [''/getAllCourses'', ''/getCoursesByState'', ''/getCourseDetails'',
                             ''/getCompletedCourses'', ''/getInProgressCourses'',
                             ''/getNotStartedCourses'']))])))])])])]"
proof -
  let ?ev = "\<lparr>actionGroup = Some (py ''CourseActionGroup''), apiPath = Some (py ''/getEverything''),
        httpMethod = Some (py ''GET''), parameters = Some []\<rparr>"
  have a: "dynamodb_table (example_course_env (Inr example_table)) = Inr example_table"
    by (simp add: example_course_env_def)
  have b: "collect_params Map.empty (case parameters ?ev of Some ps \<Rightarrow> ps | None \<Rightarrow> []) = Inr Map.empty"
    by simp
  have c: "py ''/getEverything'' = (case apiPath ?ev of Some p \<Rightarrow> p | None \<Rightarrow> [])"
    by simp
  have d: "py ''/getEverything'' \<notin> set available_paths"
    by (simp add: available_paths_def py_def)
  have e: "py ''Unknown API path: '' @ py ''/getEverything'' = py ''Unknown API path: /getEverything''"
    by (simp add: py_def)
  from C6_unknown_path [OF a b c d] a d show ?thesis
    by (simp add: example_course_env_def available_paths_def e)
qed

text \<open>
  C7, as stated, fails: a \<open>courseId\<close> that is present but empty matches no record,
  and the answer is \<open>success: false\<close> with status 400.
\<close>

theorem C7_empty_courseId_counterexample:
  "get_item example_table [] = Inr None
   \<and> lambda_handler_action (example_course_env (Inr example_table))
       \<lparr>actionGroup = Some (py ''CourseActionGroup''), apiPath = Some (py ''/getCourseDetails''),
        httpMethod = Some (py ''GET''),
        parameters = Some [[(py ''name'', py ''courseId''), (py ''type'', py ''string''),
                            (py ''value'', [])]]\<rparr>
     = VDict
        [(py ''messageVersion'', VStr (py ''1.0'')),
         (py ''response'', VDict
            [(py ''actionGroup'', VStr (py ''CourseActionGroup'')),
             (py ''apiPath'', VStr (py ''/getCourseDetails'')),
             (py ''httpMethod'', VStr (py ''GET'')),
             (py ''httpStatusCode'', VInt 400),
             (py ''responseBody'', VDict
                [(py ''application/json'', VDict
                    [(py ''body'', VStr (render_val (VDict
                        [(py ''success'', VBool False),
                         (py ''error'', VStr (py ''courseId parameter is required''))])))])])])]"
proof -
  have g: "get_item example_table [] = Inr None"
    by (simp add: example_table_def example_items_def py_def)
  have a: "dynamodb_table (example_course_env (Inr example_table)) = Inr example_table"
    by (simp add: example_course_env_def)
  have p: "collect_params Map.empty
             [[(py ''name'', py ''courseId''), (py ''type'', py ''string''), (py ''value'', [])]]
           = Inr [py ''courseId'' \<mapsto> []]"
    by (simp add: param_keys)
  have r: "route (example_course_env (Inr example_table)) example_table (py ''/getCourseDetails'')
             [py ''courseId'' \<mapsto> []]
           = [(py ''success'', VBool False),
              (py ''error'', VStr (py ''courseId parameter is required''))]"
  proof -
    have "py ''/getCourseDetails'' \<noteq> py ''/getAllCourses''"
      "py ''/getCourseDetails'' \<noteq> py ''/getCoursesByState''"
      by (simp_all add: py_def)
    then show ?thesis by (simp add: route_def get_course_details_def)
  qed
  have h: "lambda_handler_action (example_course_env (Inr example_table))
       \<lparr>actionGroup = Some (py ''CourseActionGroup''), apiPath = Some (py ''/getCourseDetails''),
        httpMethod = Some (py ''GET''),
        parameters = Some [[(py ''name'', py ''courseId''), (py ''type'', py ''string''),
                            (py ''value'', [])]]\<rparr>
     = create_bedrock_response (example_course_env (Inr example_table))
         (py ''CourseActionGroup'') (py ''/getCourseDetails'') (py ''GET'')
         [(py ''success'', VBool False),
          (py ''error'', VStr (py ''courseId parameter is required''))]"
    unfolding lambda_handler_action_def by (simp add: a p r param_keys)
  show ?thesis
    unfolding h using g
    by (simp add: create_bedrock_response_def example_course_env_def dict_get_def)
qed

text \<open>
  C7, amended. When the table handle is obtained, every entry of \<open>parameters\<close> has a
  name and a value, \<open>courseId\<close> is present and not empty, and \<open>get_item\<close> finds no
  item for it, the result is \<open>success: true\<close> with \<open>found: false\<close> and the envelope
  has status 200.
\<close>

theorem C7_missing_record:
  assumes "dynamodb_table env = Inr tbl"
    and "collect_params Map.empty (case parameters event of Some ps \<Rightarrow> ps | None \<Rightarrow> []) = Inr params"
    and "apiPath event = Some (py ''/getCourseDetails'')"
    and "params (py ''courseId'') = Some course_id" and "course_id \<noteq> []"
    and "get_item tbl course_id = Inr None"
  shows "lambda_handler_action env event = VDict
        [(py ''messageVersion'', VStr (py ''1.0'')),
         (py ''response'', VDict
            [(py ''actionGroup'',
                VStr (case actionGroup event of Some g \<Rightarrow> g | None \<Rightarrow> py ''CourseActionGroup'')),
             (py ''apiPath'', VStr (py ''/getCourseDetails'')),
             (py ''httpMethod'',
                VStr (case httpMethod event of Some m \<Rightarrow> m | None \<Rightarrow> py ''GET'')),
             (py ''httpStatusCode'', VInt 200),
             (py ''responseBody'', VDict
                [(py ''application/json'', VDict
                    [(py ''body'', VStr (dumps env (VDict
                        [(py ''success'', VBool True),
                         (py ''data'', VDict
                            [(py ''courseId'', VStr course_id),
                             (py ''found'', VBool False),
                             (py ''message'', VStr (py ''Course with ID '' @ course_id
                                @ py '' not found''))])])))])])])]"
proof -
  have n: "py ''/getCourseDetails'' \<noteq> py ''/getAllCourses''"
      "py ''/getCourseDetails'' \<noteq> py ''/getCoursesByState''"
    by (simp_all add: py_def)
  have r: "route env tbl (py ''/getCourseDetails'') params =
        [(py ''success'', VBool True),
         (py ''data'', VDict
            [(py ''courseId'', VStr course_id),
             (py ''found'', VBool False),
             (py ''message'', VStr (py ''Course with ID '' @ course_id @ py '' not found''))])]"
    using assms(4,5,6) n by (simp add: route_def get_course_details_def)
  have "lambda_handler_action env event =
      create_bedrock_response env
        (case actionGroup event of Some g \<Rightarrow> g | None \<Rightarrow> py ''CourseActionGroup'')
        (py ''/getCourseDetails'')
        (case httpMethod event of Some m \<Rightarrow> m | None \<Rightarrow> py ''GET'')
        (route env tbl (py ''/getCourseDetails'') params)"
    using assms(1,2,3) by (simp add: lambda_handler_action_def Let_def)
  then show ?thesis
    unfolding r by (simp add: create_bedrock_response_def dict_get_def)
qed

theorem C7_missing_record_witness:
  "dynamodb_table (example_course_env (Inr example_table)) = Inr example_table
   \<and> collect_params Map.empty [[(py ''name'', py ''courseId''), (py ''value'', py ''C3'')]]
       = Inr [py ''courseId'' \<mapsto> py ''C3'']
   \<and> py ''C3'' \<noteq> []
   \<and> get_item example_table (py ''C3'') = Inr None
   \<and> lambda_handler_action (example_course_env (Inr example_table))
       \<lparr>actionGroup = None, apiPath = Some (py ''/getCourseDetails''), httpMethod = None,
        parameters = Some [[(py ''name'', py ''courseId''), (py ''value'', py ''C3'')]]\<rparr>
     = VDict
        [(py ''messageVersion'', VStr (py ''1.0'')),
         (py ''response'', VDict
            [(py ''actionGroup'', VStr (py ''CourseActionGroup'')),
             (py ''apiPath'', VStr (py ''/getCourseDetails'')),
             (py ''httpMethod'', VStr (py ''GET'')),
             (py ''httpStatusCode'', VInt 200),
             (py ''responseBody'', VDict
                [(py ''application/json'', VDict
                    [(py ''body'', VStr (render_val (VDict
                        [(py ''success'', VBool True),
                         (py ''data'', VDict
                            [(py ''courseId'', VStr (py ''C3'')),
                             (py ''found'', VBool False),
                             (py ''message'', VStr (py ''Course with ID C3 not found''))])])))])])])]"
proof -
  let ?ev = "\<lparr>actionGroup = None, apiPath = Some (py ''/getCourseDetails''), httpMethod = None,
        parameters = Some [[(py ''name'', py ''courseId''), (py ''value'', py ''C3'')]]\<rparr>"
  have a: "dynamodb_table (example_course_env (Inr example_table)) = Inr example_table"
    by (simp add: example_course_env_def)
  have p: "collect_params Map.empty [[(py ''name'', py ''courseId''), (py ''value'', py ''C3'')]]
       = Inr [py ''courseId'' \<mapsto> py ''C3'']"
    by (simp add: param_keys)
  have b: "collect_params Map.empty (case parameters ?ev of Some ps \<Rightarrow> ps | None \<Rightarrow> [])
       = Inr [py ''courseId'' \<mapsto> py ''C3'']"
    using p by simp
  have c: "apiPath ?ev = Some (py ''/getCourseDetails'')" by simp
  have d: "[py ''courseId'' \<mapsto> py ''C3''] (py ''courseId'') = Some (py ''C3'')" by simp
  have e: "py ''C3'' \<noteq> []" by (simp add: py_def)
  have g: "get_item example_table (py ''C3'') = Inr None"
    by (simp add: example_table_def example_items_def py_def)
  have m: "py ''Course with ID '' @ py ''C3'' @ py '' not found'' = py ''Course with ID C3 not found''"
    by (simp add: py_def)
  from C7_missing_record [OF a b c d e g] a p e g show ?thesis
    by (simp add: example_course_env_def m)
qed

text \<open>
  C8. On every path that returns a course list (list-all, list-by-state and its three
  fixed-state shortcuts), the returned list is in ascending order of \<open>CourseID\<close>
  under the code-point comparison of strings, the identifiers being strings as in
  the data model.
\<close>

theorem C8_sorted_by_CourseID:
  assumes "result = route env tbl api_path params"
    and "map_of result (py ''data'') = Some (VDict d)"
    and "map_of d (py ''courses'') = Some (VList (map VDict cs))"
    and "list_all has_string_id cs"
  shows "sorted_wrt id_le cs"
proof -
  from assms(1,2) have "map_of (route env tbl api_path params) (py ''data'') = Some (VDict d)"
    by simp
  from route_data [OF this] assms(3) obtain items cs' where
    n: "normalize_and_sort env items = Inr cs'" and e: "map VDict cs = map VDict cs'"
    by auto
  from e have "cs = cs'" by (simp add: map_VDict_eq)
  with n assms(4) show ?thesis by (simp add: normalize_and_sort_sorted)
qed

text \<open>
  The three example courses are stored as C2, C10, C1 and returned as C1, C10, C2:
  "C10" precedes "C2".
\<close>

theorem C8_sorted_by_CourseID_witness:
  "route (example_course_env (Inr example_table)) example_table (py ''/getAllCourses'') Map.empty =
     [(py ''success'', VBool True),
      (py ''data'', VDict
         [(py ''courses'', VList (map VDict
             [course_record ''C1'' ''SQL'' (Decimal 8 0) ''Completed'',
              course_record ''C10'' ''Python'' (Decimal 12 0) ''In Progress'',
              course_record ''C2'' ''AWS Basics'' (Decimal 45 (- 1)) ''Completed''])),
          (py ''totalCourses'', VInt 3),
          (py ''message'', VStr (py ''Retrieved 3 courses successfully from MyCourses table''))])]
   \<and> list_all has_string_id
        [course_record ''C1'' ''SQL'' (Decimal 8 0) ''Completed'',
         course_record ''C10'' ''Python'' (Decimal 12 0) ''In Progress'',
         course_record ''C2'' ''AWS Basics'' (Decimal 45 (- 1)) ''Completed'']
   \<and> sorted_wrt id_le
        [course_record ''C1'' ''SQL'' (Decimal 8 0) ''Completed'',
         course_record ''C10'' ''Python'' (Decimal 12 0) ''In Progress'',
         course_record ''C2'' ''AWS Basics'' (Decimal 45 (- 1)) ''Completed'']
   \<and> py ''C10'' < py ''C2''"
proof -
  let ?env = "example_course_env (Inr example_table)"
  let ?cs = "[course_record ''C1'' ''SQL'' (Decimal 8 0) ''Completed'',
              course_record ''C10'' ''Python'' (Decimal 12 0) ''In Progress'',
              course_record ''C2'' ''AWS Basics'' (Decimal 45 (- 1)) ''Completed'']"
  let ?d = "[(py ''courses'', VList (map VDict ?cs)),
          (py ''totalCourses'', VInt 3),
          (py ''message'', VStr (py ''Retrieved 3 courses successfully from MyCourses table''))]"
  have st: "table_status example_table = Inr (py ''ACTIVE'')"
    by (simp add: example_table_def)
  have sc: "scan_all [] (scan example_table None) = Inr example_items"
    by (simp add: example_table_def)
  have ns: "normalize_and_sort ?env example_items = Inr ?cs"
    by code_simp
  have m: "py ''Retrieved '' @ 51 # py '' courses successfully from MyCourses table''
         = py ''Retrieved 3 courses successfully from MyCourses table''"
    by (simp add: py_def)
  have g: "get_all_courses ?env example_table = [(py ''success'', VBool True), (py ''data'', VDict ?d)]"
    unfolding get_all_courses_def by (simp add: st sc ns m)
  have r: "route ?env example_table (py ''/getAllCourses'') Map.empty
         = [(py ''success'', VBool True), (py ''data'', VDict ?d)]"
    by (simp add: route_def g)
  have k: "py ''data'' \<noteq> py ''success''" by (simp add: py_def)
  have h2: "map_of [(py ''success'', VBool True), (py ''data'', VDict ?d)] (py ''data'') = Some (VDict ?d)"
    using k by simp
  have h3: "map_of ?d (py ''courses'') = Some (VList (map VDict ?cs))"
    by simp
  have h4: "list_all has_string_id ?cs"
    by (simp add: has_string_id_def sort_key_CourseID_def dict_get_def course_record_def)
  have lt: "py ''C10'' < py ''C2''"
    by (simp add: py_def)
  from C8_sorted_by_CourseID [OF r [symmetric] h2 h3 h4] r h4 lt show ?thesis
    by simp
qed

text \<open>
  C9. Every course record returned, in a course list or as the single course of
  get-by-id, stems from an item of the table, and its \<open>Duration\<close> is the converted
  stored duration: a float whenever the stored value is a decimal, and never a
  decimal.
\<close>

theorem C9_duration_is_float:
  assumes "result = route env tbl api_path params"
    and "map_of result (py ''data'') = Some (VDict d)"
    and "(\<exists>rs. map_of d (py ''courses'') = Some (VList rs) \<and> VDict c \<in> set rs)
         \<or> map_of d (py ''course'') = Some (VDict c)"
  shows "\<exists>item. from_table tbl item
      \<and> map_of c (py ''Duration'') =
          Some (convert_decimals (dict_get item (py ''Duration (hours)'') (VStr [])))
      \<and> (\<forall>dec. dict_get item (py ''Duration (hours)'') (VStr []) = VDecimal dec \<longrightarrow>
            map_of c (py ''Duration'') = Some (VFloat (float dec)))
      \<and> (\<forall>dec. map_of c (py ''Duration'') \<noteq> Some (VDecimal dec))"
proof -
  have "\<exists>item. from_table tbl item \<and> normalize_course (convert_decimals (VDict item)) = Inr c"
  proof -
    from assms(1,2) have "map_of (route env tbl api_path params) (py ''data'') = Some (VDict d)"
      by simp
    from route_data [OF this]
    consider (list) state_filter items cs where
        "scan_all [] (scan tbl state_filter) = Inr items"
        "normalize_and_sort env items = Inr cs"
        "map_of d (py ''courses'') = Some (VList (map VDict cs))"
        "map_of d (py ''course'') = None"
      | (single) course_id item0 where
        "map_of d (py ''courses'') = None"
        "get_item tbl course_id = Inr (Some item0)"
        "normalize_course (convert_decimals item0) = Inr c"
      using assms(3) by auto
    then show ?thesis
    proof cases
      case list
      with assms(3) have "VDict c \<in> set (map VDict cs)" by auto
      then have "c \<in> set cs" by auto
      from normalize_and_sort_origin [OF list(2) this] obtain item where
        i: "VDict item \<in> set items" and n: "normalize_course (convert_decimals (VDict item)) = Inr c"
        by blast
      from scan_all_items [OF list(1)] i have "VDict item \<in> set (page_items (scan tbl state_filter))"
        by simp
      then have "from_table tbl item" unfolding from_table_def by blast
      with n show ?thesis by blast
    next
      case single
      from normalize_convert_Inr [OF single(3)] obtain item where "item0 = VDict item" by blast
      with single(2,3) show ?thesis unfolding from_table_def by blast
    qed
  qed
  then obtain item where f: "from_table tbl item"
    and n: "normalize_course (convert_decimals (VDict item)) = Inr c" by blast
  from duration_of_normalized [OF n] have
    m: "map_of c (py ''Duration'') =
          Some (convert_decimals (dict_get item (py ''Duration (hours)'') (VStr [])))" .
  have "\<forall>dec. dict_get item (py ''Duration (hours)'') (VStr []) = VDecimal dec \<longrightarrow>
            map_of c (py ''Duration'') = Some (VFloat (float dec))"
    using m by simp
  moreover have "\<forall>dec. map_of c (py ''Duration'') \<noteq> Some (VDecimal dec)"
    using m by (simp add: convert_not_decimal)
  ultimately show ?thesis using f m by blast
qed

text \<open>
  Course C2 is stored with the duration \<open>Decimal 45 (- 1)\<close> and returned by
  get-by-id with the duration \<open>float (Decimal 45 (- 1))\<close>.
\<close>

theorem C9_duration_is_float_witness:
  "route (example_course_env (Inr example_table)) example_table (py ''/getCourseDetails'')
      [py ''courseId'' \<mapsto> py ''C2''] =
     [(py ''success'', VBool True),
      (py ''data'', VDict
         [(py ''courseId'', VStr (py ''C2'')),
          (py ''found'', VBool True),
          (py ''course'', VDict (course_record ''C2'' ''AWS Basics'' (Decimal 45 (- 1)) ''Completed'')),
          (py ''message'', VStr (py ''Course details retrieved successfully''))])]
   \<and> map_of (course_record ''C2'' ''AWS Basics'' (Decimal 45 (- 1)) ''Completed'') (py ''Duration'')
       = Some (VFloat (float (Decimal 45 (- 1))))
   \<and> (\<exists>item. from_table example_table item
      \<and> map_of (course_record ''C2'' ''AWS Basics'' (Decimal 45 (- 1)) ''Completed'') (py ''Duration'') =
          Some (convert_decimals (dict_get item (py ''Duration (hours)'') (VStr [])))
      \<and> (\<forall>dec. dict_get item (py ''Duration (hours)'') (VStr []) = VDecimal dec \<longrightarrow>
            map_of (course_record ''C2'' ''AWS Basics'' (Decimal 45 (- 1)) ''Completed'')
              (py ''Duration'') = Some (VFloat (float dec)))
      \<and> (\<forall>dec. map_of (course_record ''C2'' ''AWS Basics'' (Decimal 45 (- 1)) ''Completed'')
              (py ''Duration'') \<noteq> Some (VDecimal dec)))"
proof -
  let ?env = "example_course_env (Inr example_table)"
  let ?c = "course_record ''C2'' ''AWS Basics'' (Decimal 45 (- 1)) ''Completed''"
  let ?d = "[(py ''courseId'', VStr (py ''C2'')),
          (py ''found'', VBool True),
          (py ''course'', VDict ?c),
          (py ''message'', VStr (py ''Course details retrieved successfully''))]"
  have n: "py ''/getCourseDetails'' \<noteq> py ''/getAllCourses''"
      "py ''/getCourseDetails'' \<noteq> py ''/getCoursesByState''"
      "py ''C2'' \<noteq> []"
    by (simp_all add: py_def)
  have g: "get_item example_table (py ''C2'') = Inr (Some (hd example_items))"
    by (simp add: example_table_def example_items_def py_def)
  have c: "normalize_course (convert_decimals (hd example_items)) = Inr ?c"
    by code_simp
  have r: "route ?env example_table (py ''/getCourseDetails'') [py ''courseId'' \<mapsto> py ''C2'']
         = [(py ''success'', VBool True), (py ''data'', VDict ?d)]"
    using n by (simp add: route_def get_course_details_def g c)
  have k: "py ''data'' \<noteq> py ''success''" "py ''course'' \<noteq> py ''courseId''"
      "py ''course'' \<noteq> py ''found''"
    by (simp_all add: py_def)
  have h2: "map_of [(py ''success'', VBool True), (py ''data'', VDict ?d)] (py ''data'') = Some (VDict ?d)"
    using k by simp
  have h3: "(\<exists>rs. map_of ?d (py ''courses'') = Some (VList rs) \<and> VDict ?c \<in> set rs)
         \<or> map_of ?d (py ''course'') = Some (VDict ?c)"
    using k by simp
  have v: "map_of ?c (py ''Duration'') = Some (VFloat (float (Decimal 45 (- 1))))"
    by (simp add: course_record_def py_def)
  from C9_duration_is_float [OF r [symmetric] h2 h3] r v show ?thesis
    by blast
qed

subsection \<open>AgentRouter: response metadata\<close>

text \<open>
  C10. Every response with status 200 other than the CORS preflight acknowledgement
  is a success envelope whose \<open>agent\<close> block holds \<open>BEDROCK_AGENT_NAME\<close>,
  \<open>BEDROCK_AGENT_ID\<close> and \<open>BEDROCK_AGENT_ALIAS_ID\<close>, whichever agent was invoked.
\<close>

theorem C10_agent_metadata:
  assumes "lambda_handler env event = (calls, r)" and "statusCode r = 200"
  shows "r = \<lparr>statusCode = 200, headers = cors_headers,
               body = json_dumps env (JObj [(py ''message'', JStr (py ''CORS preflight successful''))])\<rparr>
       \<or> (\<exists>message session_id.
             r = \<lparr>statusCode = 200, headers = cors_headers,
                  body = json_dumps env (JObj
                    [(py ''response'', JStr message),
                     (py ''sessionId'', session_id),
                     (py ''timestamp'', JStr (utcnow_isoformat env)),
                     (py ''status'', JStr (py ''success'')),
                     (py ''agent'', JObj
                        [(py ''name'', JStr (BEDROCK_AGENT_NAME env)),
                         (py ''id'', JStr (BEDROCK_AGENT_ID env)),
                         (py ''aliasId'', JStr (BEDROCK_AGENT_ALIAS_ID env))])])\<rparr>)"
  using assms
  by (auto simp: lambda_handler_def lambda_handler_try_def create_error_response_def
        create_success_response_def success_body_def agent_block_def Let_def
      split: json.splits if_splits sum.splits prod.splits)

text \<open>
  The prompt "Show all my courses" is sent to the course agent, and the response
  names the general agent.
\<close>

theorem C10_agent_metadata_witness:
  "lambda_handler
     (example_env (Inr (Yield (Chunk (Some (Utf8 (py ''You have 2 courses.'')))) EndOfStream)))
     (JObj [(py ''prompt'', JStr (py ''Show all my courses'')), (py ''sessionId'', JStr (py ''abc''))])
   = ([\<lparr>agentId = py ''COURSEAGENT'', agentAliasId = py ''COURSEALIAS'',
        sessionId = JStr (py ''abc''), inputText = py ''Show all my courses'',
        enableTrace = False, endSession = False\<rparr>],
      \<lparr>statusCode = 200, headers = cors_headers,
       body = render (JObj
         [(py ''response'', JStr (py ''You have 2 courses.'')),
          (py ''sessionId'', JStr (py ''abc'')),
          (py ''timestamp'', JStr (py ''2025-11-01T00:00:00'')),
          (py ''status'', JStr (py ''success'')),
          (py ''agent'', JObj
             [(py ''name'', JStr (py ''myagent-invoke-llm'')),
              (py ''id'', JStr (py ''GENERALAGENT'')),
              (py ''aliasId'', JStr (py ''GENERALALIAS''))])])\<rparr>)
   \<and> (\<exists>message session_id.
        snd (lambda_handler
          (example_env (Inr (Yield (Chunk (Some (Utf8 (py ''You have 2 courses.'')))) EndOfStream)))
          (JObj [(py ''prompt'', JStr (py ''Show all my courses'')),
                 (py ''sessionId'', JStr (py ''abc''))]))
        = \<lparr>statusCode = 200, headers = cors_headers,
           body = render (JObj
             [(py ''response'', JStr message),
              (py ''sessionId'', session_id),
              (py ''timestamp'', JStr (py ''2025-11-01T00:00:00'')),
              (py ''status'', JStr (py ''success'')),
              (py ''agent'', JObj
                 [(py ''name'', JStr (py ''myagent-invoke-llm'')),
                  (py ''id'', JStr (py ''GENERALAGENT'')),
                  (py ''aliasId'', JStr (py ''GENERALALIAS''))])])\<rparr>)"
proof -
  let ?env = "example_env (Inr (Yield (Chunk (Some (Utf8 (py ''You have 2 courses.'')))) EndOfStream))"
  let ?ev = "[(py ''prompt'', JStr (py ''Show all my courses'')), (py ''sessionId'', JStr (py ''abc''))]"
  have ne: "py ''sessionId'' \<noteq> py ''prompt''" "py ''httpMethod'' \<noteq> py ''prompt''"
      "py ''httpMethod'' \<noteq> py ''sessionId''"
    by (simp_all add: py_def)
  have p: "parse_request_body ?env ?ev = JObj ?ev"
    by (simp add: parse_request_body_def py_def)
  have v: "validate_request ?env (JObj ?ev) = Inr (True, JNull)"
    by code_simp
  have t: "strip (py ''Show all my courses'') = py ''Show all my courses''"
    by (simp add: strip_def py_def is_space_def)
  have q: "is_technical_query (py ''Show all my courses'')"
    by code_simp
  have k: "list_ex (\<lambda>keyword. str_in keyword (lower (py ''Show all my courses''))) mycourse_keywords"
    by code_simp
  have u: "strip (py ''You have 2 courses.'') = py ''You have 2 courses.''"
    by (simp add: strip_def py_def is_space_def)
  have n: "py ''You have 2 courses.'' \<noteq> []"
    by (simp add: py_def)
  have a: "generate_ai_response_with_agent ?env (py ''Show all my courses'') (JStr (py ''abc''))
         = ([\<lparr>agentId = py ''COURSEAGENT'', agentAliasId = py ''COURSEALIAS'',
              sessionId = JStr (py ''abc''), inputText = py ''Show all my courses'',
              enableTrace = False, endSession = False\<rparr>], Inr (py ''You have 2 courses.''))"
    unfolding generate_ai_response_with_agent_def Let_def
    by (simp add: k u n example_env_def)
  have h: "lambda_handler_try ?env (JObj ?ev)
         = ([\<lparr>agentId = py ''COURSEAGENT'', agentAliasId = py ''COURSEALIAS'',
              sessionId = JStr (py ''abc''), inputText = py ''Show all my courses'',
              enableTrace = False, endSession = False\<rparr>],
            Inr (create_success_response ?env (py ''You have 2 courses.'') (JStr (py ''abc''))
                   cors_headers))"
    unfolding lambda_handler_try_def by (simp add: ne p v t q a)
  have l: "lambda_handler ?env (JObj ?ev)
     = ([\<lparr>agentId = py ''COURSEAGENT'', agentAliasId = py ''COURSEALIAS'',
        sessionId = JStr (py ''abc''), inputText = py ''Show all my courses'',
        enableTrace = False, endSession = False\<rparr>],
        create_success_response ?env (py ''You have 2 courses.'') (JStr (py ''abc'')) cors_headers)"
    unfolding lambda_handler_def by (simp add: h)
  have c: "statusCode (create_success_response ?env (py ''You have 2 courses.'')
             (JStr (py ''abc'')) cors_headers) = 200"
    by (simp add: create_success_response_def)
  have e: "create_success_response ?env (py ''You have 2 courses.'') (JStr (py ''abc'')) cors_headers
     = \<lparr>statusCode = 200, headers = cors_headers,
       body = render (JObj
         [(py ''response'', JStr (py ''You have 2 courses.'')),
          (py ''sessionId'', JStr (py ''abc'')),
          (py ''timestamp'', JStr (py ''2025-11-01T00:00:00'')),
          (py ''status'', JStr (py ''success'')),
          (py ''agent'', JObj
             [(py ''name'', JStr (py ''myagent-invoke-llm'')),
              (py ''id'', JStr (py ''GENERALAGENT'')),
              (py ''aliasId'', JStr (py ''GENERALALIAS''))])])\<rparr>"
    by (simp add: create_success_response_def success_body_def agent_block_def example_env_def)
  from C10_agent_metadata [OF l c]
  have "\<exists>message session_id.
        create_success_response ?env (py ''You have 2 courses.'') (JStr (py ''abc'')) cors_headers
        = \<lparr>statusCode = 200, headers = cors_headers,
           body = json_dumps ?env (JObj
             [(py ''response'', JStr message),
              (py ''sessionId'', session_id),
              (py ''timestamp'', JStr (utcnow_isoformat ?env)),
              (py ''status'', JStr (py ''success'')),
              (py ''agent'', JObj
                 [(py ''name'', JStr (BEDROCK_AGENT_NAME ?env)),
                  (py ''id'', JStr (BEDROCK_AGENT_ID ?env)),
                  (py ''aliasId'', JStr (BEDROCK_AGENT_ALIAS_ID ?env))])])\<rparr>"
    by (auto simp: create_success_response_def success_body_def agent_block_def)
  then have "\<exists>message session_id.
        snd (lambda_handler ?env (JObj ?ev))
        = \<lparr>statusCode = 200, headers = cors_headers,
           body = render (JObj
             [(py ''response'', JStr message),
              (py ''sessionId'', session_id),
              (py ''timestamp'', JStr (py ''2025-11-01T00:00:00'')),
              (py ''status'', JStr (py ''success'')),
              (py ''agent'', JObj
                 [(py ''name'', JStr (py ''myagent-invoke-llm'')),
                  (py ''id'', JStr (py ''GENERALAGENT'')),
                  (py ''aliasId'', JStr (py ''GENERALALIAS''))])])\<rparr>"
    unfolding l by (simp add: example_env_def)
  with l e show ?thesis by simp
qed

end
